theory Spec2Isabelle
  imports Complex_Main
begin

section \<open>Python values, exceptions and log records\<close>

text \<open>
  The exceptions the modelled functions raise or catch. \<open>DatabaseError\<close> stands for
  whatever a database driver call raises (psycopg2, the BigQuery client, or \<open>open\<close> on
  a file that cannot be read); the handlers of the source catch \<open>Exception\<close>, so they
  do not tell these apart.
\<close>

datatype exn =
    FileNotFoundError string
  | ValueError string
  | KeyError "string list"
  | IndexError
  | DatabaseError
  | HTTPException nat string
  | UnboundLocalError string

text \<open>What a Python call hands back to its caller: \<open>None\<close> or an integer.\<close>

datatype py_value = PyNone | PyInt int

datatype log_record = INFO string | ERROR string exn

section \<open>The partition catalog (extract_relevant_csv_files)\<close>

text \<open>
  The datetimes of this function come from \<open>strptime(_, "%Y-%m")\<close> and
  \<open>replace(day=1)\<close>: day 1, midnight. Only year and month are kept.
\<close>

record datetime =
  year :: nat
  month :: nat

text \<open>
  \<open>datetime.strptime(s, "%Y-%m")\<close>: the whole string must match four digits, a hyphen
  and a month written \<open>1[0-2]\<close>, \<open>0[1-9]\<close> or \<open>[1-9]\<close>; year 0 is out of datetime's
  range. (ASCII digits: a \<open>char\<close> is a byte.)
\<close>

definition is_digit :: "char \<Rightarrow> bool" where
  "is_digit c = (c \<in> set ''0123456789'')"

definition digit_value :: "char \<Rightarrow> nat" where
  "digit_value c = length (takeWhile (\<lambda>d. d \<noteq> c) ''0123456789'')"

definition digit_char :: "nat \<Rightarrow> char" where
  "digit_char n = ''0123456789'' ! n"

fun year_of :: "string \<Rightarrow> nat option" where
  "year_of [a, b, c, d] =
     (if is_digit a \<and> is_digit b \<and> is_digit c \<and> is_digit d
      then Some (1000 * digit_value a + 100 * digit_value b + 10 * digit_value c + digit_value d)
      else None)"
| "year_of _ = None"

fun month_of :: "string \<Rightarrow> nat option" where
  "month_of [a] = (if a \<in> set ''123456789'' then Some (digit_value a) else None)"
| "month_of [a, b] =
     (if a = CHR ''1'' \<and> b \<in> set ''012'' then Some (10 + digit_value b)
      else if a = CHR ''0'' \<and> b \<in> set ''123456789'' then Some (digit_value b)
      else None)"
| "month_of _ = None"

definition strptime_Ym :: "string \<Rightarrow> exn + datetime" where
  "strptime_Ym s =
     (case year_of (take 4 s) of
        None \<Rightarrow> Inl (ValueError ''time data does not match format %Y-%m'')
      | Some y \<Rightarrow>
          (if take 1 (drop 4 s) \<noteq> ''-'' then Inl (ValueError ''time data does not match format %Y-%m'')
           else
             (case month_of (drop 5 s) of
                None \<Rightarrow> Inl (ValueError ''time data does not match format %Y-%m'')
              | Some m \<Rightarrow>
                  (if y = 0 then Inl (ValueError ''year 0 is out of range'')
                   else Inr \<lparr> year = y, month = m \<rparr>))))"

text \<open>
  \<open>strftime("%Y-%m")\<close>. CPython hands the format to the C library, and glibc prints
  \<open>%Y\<close> as the plain decimal number, without leading zeros (year 999 is \<open>999\<close>, not
  \<open>0999\<close>); \<open>%m\<close> is the month on two digits.
\<close>

fun decimal :: "nat \<Rightarrow> string" where
  "decimal n = (if n < 10 then [digit_char n] else decimal (n div 10) @ [digit_char (n mod 10)])"

declare decimal.simps [simp del]

definition strftime_Y :: "datetime \<Rightarrow> string" where
  "strftime_Y d = decimal (year d)"

definition strftime_m :: "datetime \<Rightarrow> string" where
  "strftime_m d = [digit_char (month d div 10 mod 10), digit_char (month d mod 10)]"

definition strftime_Ym :: "datetime \<Rightarrow> string" where
  "strftime_Ym d = strftime_Y d @ ''-'' @ strftime_m d"

text \<open>\<open>current <= end\<close>.\<close>

definition dt_le :: "datetime \<Rightarrow> datetime \<Rightarrow> bool" where
  "dt_le a b = (year a < year b \<or> (year a = year b \<and> month a \<le> month b))"

text \<open>
  \<open>current.replace(year=y, month=m)\<close> raises \<open>ValueError\<close> outside datetime's range
  (years 1 to 9999, months 1 to 12).
\<close>

definition replace_year_month :: "datetime \<Rightarrow> nat \<Rightarrow> nat \<Rightarrow> exn + datetime" where
  "replace_year_month d y m =
     (if y < 1 \<or> 9999 < y then Inl (ValueError ''year is out of range'')
      else if m < 1 \<or> 12 < m then Inl (ValueError ''month must be in 1..12'')
      else Inr (d\<lparr>year := y, month := m\<rparr>))"

text \<open>
  The \<open>while\<close> loop that builds \<open>date_range\<close>; \<open>(next_month % 12) or 12\<close> is 12 when
  the remainder is 0. An exception of \<open>replace\<close> is not caught in the function.
\<close>

function date_range_loop :: "datetime \<Rightarrow> datetime \<Rightarrow> string list \<Rightarrow> exn + string list" where
  "date_range_loop current end_dt date_range =
     (if dt_le current end_dt then
        (let date_range1 = date_range @ [strftime_Ym current];
             next_month = month current + 1
         in case replace_year_month current (year current + next_month div 13)
                   (if next_month mod 12 = 0 then 12 else next_month mod 12) of
              Inl e \<Rightarrow> Inl e
            | Inr current1 \<Rightarrow> date_range_loop current1 end_dt date_range1)
      else Inr date_range)"
  by pat_completeness auto

termination
proof (relation "measure (\<lambda>(current, end_dt, date_range). (10000 - year current) * 13 + (13 - month current))")
  show "wf (measure (\<lambda>(current, end_dt, date_range). (10000 - year current) * 13 + (13 - month current)))"
    by simp
next
  fix current end_dt :: datetime and date_range date_range1 :: "string list" and next_month current1
  assume nm: "next_month = month current + 1"
    and r: "replace_year_month current (year current + next_month div 13)
       (if next_month mod 12 = 0 then 12 else next_month mod 12) = Inr current1"
  define k where "k = next_month div 13"
  from r have y: "year current1 = year current + k" "year current + k \<le> 9999"
    and m: "month current1 = (if next_month mod 12 = 0 then 12 else next_month mod 12)"
    by (auto simp: replace_year_month_def k_def split: if_splits)
  show "((current1, end_dt, date_range1), (current, end_dt, date_range))
     \<in> measure (\<lambda>(current, end_dt, date_range). (10000 - year current) * 13 + (13 - month current))"
  proof (cases "k = 0")
    case True
    then have lt: "month current + 1 < 13" using nm by (simp add: k_def div_eq_0_iff)
    have aux: "(if n mod 12 = 0 then 12 else n mod 12) = n" if "0 < n" "n < 13" for n :: nat
      using that by (cases "n = 12") auto
    have "(if (month current + 1) mod 12 = 0 then 12 else (month current + 1) mod 12)
        = month current + 1"
      by (rule aux) (use lt in simp_all)
    then have "month current1 = month current + 1" unfolding m nm by (simp only:)
    with True y lt show ?thesis by simp
  next
    case False
    have "1 \<le> month current1" "month current1 \<le> 12" unfolding m by auto
    with False y show ?thesis by simp
  qed
qed

declare date_range_loop.simps [simp del]

text \<open>\<open>str.split('/')\<close>, \<open>str.endswith\<close>, \<open>str.replace('.csv', '')\<close>, \<open>os.path.join\<close>.\<close>

fun split_sep :: "char \<Rightarrow> string \<Rightarrow> string list" where
  "split_sep sep [] = [[]]"
| "split_sep sep (c # cs) =
     (if c = sep then [] # split_sep sep cs
      else (case split_sep sep cs of [] \<Rightarrow> [[c]] | part # parts \<Rightarrow> (c # part) # parts))"

definition endswith :: "string \<Rightarrow> string \<Rightarrow> bool" where
  "endswith s suffix = (length suffix \<le> length s \<and> drop (length s - length suffix) s = suffix)"

fun replace_csv :: "string \<Rightarrow> string" where
  "replace_csv [] = []"
| "replace_csv (c # cs) =
     (if take 4 (c # cs) = ''.csv'' then replace_csv (drop 3 cs) else c # replace_csv cs)"

definition path_join :: "string \<Rightarrow> string \<Rightarrow> string" where
  "path_join a b =
     (if take 1 b = ''/'' then b
      else if a = [] \<or> last a = CHR ''/'' then a @ b
      else a @ ''/'' @ b)"

text \<open>
  The key of a path, line 75: the last but one component, a hyphen, and the last component
  with every \<open>.csv\<close> removed. Indexing \<open>[-2]\<close> raises \<open>IndexError\<close> on a path with a
  single component.
\<close>

definition path_month_year :: "string \<Rightarrow> exn + string" where
  "path_month_year file_path =
     (let parts = split_sep CHR ''/'' file_path
      in if length parts < 2 then Inl IndexError
         else Inr (parts ! (length parts - 2) @ ''-'' @ replace_csv (parts ! (length parts - 1))))"

text \<open>
  The file system as the function reads it: \<open>os.path.exists\<close>, and the triples
  \<open>(root, dirs, files)\<close> that \<open>os.walk\<close> yields, in its order.
\<close>

record filesystem =
  path_exists :: "string \<Rightarrow> bool"
  walk :: "string \<Rightarrow> (string \<times> string list \<times> string list) list"

text \<open>
  The two nested \<open>for\<close> loops, appending to \<open>csv_files\<close>; the handler of
  \<open>(IndexError, ValueError)\<close> continues with the next file.
\<close>

fun collect_files :: "string list \<Rightarrow> string \<Rightarrow> string list \<Rightarrow> string list \<Rightarrow> string list" where
  "collect_files date_range root_dir [] csv_files = csv_files"
| "collect_files date_range root_dir (file # files) csv_files =
     (if endswith file ''.csv'' then
        (let file_path = path_join root_dir file
         in case path_month_year file_path of
              Inl e \<Rightarrow> collect_files date_range root_dir files csv_files
            | Inr month_year \<Rightarrow>
                if month_year \<in> set date_range
                then collect_files date_range root_dir files (csv_files @ [file_path])
                else collect_files date_range root_dir files csv_files)
      else collect_files date_range root_dir files csv_files)"

fun collect_walk ::
  "string list \<Rightarrow> (string \<times> string list \<times> string list) list \<Rightarrow> string list \<Rightarrow> string list" where
  "collect_walk date_range [] csv_files = csv_files"
| "collect_walk date_range ((root_dir, dirs, files) # rest) csv_files =
     collect_walk date_range rest (collect_files date_range root_dir files csv_files)"

definition extract_relevant_csv_files ::
  "filesystem \<Rightarrow> string \<Rightarrow> string \<Rightarrow> string \<Rightarrow> exn + string list" where
  "extract_relevant_csv_files os data_folder start_date end_date =
     (if \<not> path_exists os data_folder then Inl (FileNotFoundError data_folder)
      else
        (case strptime_Ym start_date of
           Inl e \<Rightarrow> Inl (ValueError ''Start date and end date must be in 'YYYY-MM' format.'')
         | Inr start \<Rightarrow>
             (case strptime_Ym end_date of
                Inl e \<Rightarrow> Inl (ValueError ''Start date and end date must be in 'YYYY-MM' format.'')
              | Inr end_dt \<Rightarrow>
                  (case date_range_loop start end_dt [] of
                     Inl e \<Rightarrow> Inl e
                   | Inr date_range \<Rightarrow>
                       Inr (collect_walk date_range (walk os data_folder) [])))))"

text \<open>
  The words of the specification: a datetime within datetime's range; a month within
  \<open>[start, end]\<close> inclusive at month granularity; the \<open>.csv\<close> paths under the root, in
  walk order; a path selected for the window: its last two components are the year
  directory, named as \<open>strftime\<close> prints the year, and a file whose name is the month on
  two digits once every \<open>.csv\<close> is removed from it. \<open>region_year_month\<close> is the
  structure \<open>root/region/year/month.ext\<close> of the specification: exactly three components
  below the root, a year of four digits and a month number before the extension.
  \<open>next_dt\<close> is the month after a month.
\<close>

definition valid_dt :: "datetime \<Rightarrow> bool" where
  "valid_dt d = (1 \<le> year d \<and> year d \<le> 9999 \<and> 1 \<le> datetime.month d \<and> datetime.month d \<le> 12)"

definition in_window :: "datetime \<Rightarrow> datetime \<Rightarrow> datetime \<Rightarrow> bool" where
  "in_window start end_dt d =
     (1 \<le> datetime.month d \<and> datetime.month d \<le> 12 \<and> dt_le start d \<and> dt_le d end_dt)"

definition walked_csv_paths :: "filesystem \<Rightarrow> string \<Rightarrow> string list" where
  "walked_csv_paths os data_folder =
     concat (map (\<lambda>(root_dir, dirs, files). map (path_join root_dir) (filter (\<lambda>file. endswith file ''.csv'') files))
       (walk os data_folder))"

definition selected :: "datetime \<Rightarrow> datetime \<Rightarrow> string \<Rightarrow> bool" where
  "selected start end_dt file_path =
     (\<exists>d dirs file. in_window start end_dt d
        \<and> split_sep CHR ''/'' file_path = dirs @ [strftime_Y d, file]
        \<and> replace_csv file = strftime_m d)"

definition region_year_month :: "string \<Rightarrow> string \<Rightarrow> bool" where
  "region_year_month data_folder file_path =
     (let root_parts = split_sep CHR ''/'' data_folder;
          parts = split_sep CHR ''/'' file_path
      in take (length root_parts) parts = root_parts \<and>
         (case drop (length root_parts) parts of
            [region, y, file] \<Rightarrow>
              year_of y \<noteq> None \<and> month_of (takeWhile (\<lambda>c. c \<noteq> CHR ''.'') file) \<noteq> None
              \<and> 1 < length (dropWhile (\<lambda>c. c \<noteq> CHR ''.'') file)
          | _ \<Rightarrow> False))"

definition next_dt :: "datetime \<Rightarrow> datetime" where
  "next_dt d = (if datetime.month d = 12 then \<lparr>year = year d + 1, month = 1\<rparr>
                else \<lparr>year = year d, month = datetime.month d + 1\<rparr>)"

section \<open>Tables\<close>

text \<open>
  A row of the BigQuery staging table, with the column names the \<open>MERGE\<close> statement
  of \<open>bigquery/prod/insert.py\<close> reads. The schema file is not part of the sources;
  every column is nullable (BigQuery's default mode), \<open>None\<close> is SQL \<open>NULL\<close>.
\<close>

record staging_row =
  crime_id :: "string option"
  month :: "string option"
  falls_within :: "string option"
  longitude :: "real option"
  latitude :: "real option"
  lsoa_code :: "string option"
  crime_type :: "string option"
  location :: "string option"

text \<open>
  The eight canonical columns (the PostgreSQL staging table \<open>crimes_staging\<close>, and the
  production tables without the derived point). \<open>'d\<close> is the type of the month column.
\<close>

record 'd crime_row =
  crime_id :: "string option"
  month_year :: "'d option"
  police_force :: "string option"
  longitude :: "real option"
  latitude :: "real option"
  lsoa_code :: "string option"
  crime_type :: "string option"
  location_description :: "string option"

record ('d, 'g) prod_row = "'d crime_row" +
  geo_point :: "'g option"

text \<open>PostGIS points: coordinates and spatial reference identifier.\<close>

datatype geometry = Point real real nat

definition ST_MakePoint :: "real option \<Rightarrow> real option \<Rightarrow> geometry option" where
  "ST_MakePoint x y =
     (case x of None \<Rightarrow> None
      | Some a \<Rightarrow> (case y of None \<Rightarrow> None | Some b \<Rightarrow> Some (Point a b 0)))"

definition ST_SetSRID :: "geometry option \<Rightarrow> nat \<Rightarrow> geometry option" where
  "ST_SetSRID g srid = (case g of None \<Rightarrow> None | Some (Point a b _) \<Rightarrow> Some (Point a b srid))"

section \<open>The PostgreSQL pipeline (postgre/upload_to_prod.py)\<close>

text \<open>
  The calls the controller makes, in order. The trace is not a variable of the source; it
  records which of the three database functions ran, so that statements about "how often
  the merge is invoked" can be written down.
\<close>

datatype call = Staged string | Merge | Truncate

text \<open>
  The state the pipeline runs in: the two tables, what was logged, the trace of calls, and
  \<open>faults\<close>, the outcome of each coming database call (\<open>True\<close>: some statement of the
  call raises before its commit takes effect; an exhausted list means no more faults).
\<close>

record pg_world =
  crimes_staging :: "string crime_row list"
  crimes_prod :: "(string, geometry) prod_row list"
  faults :: "bool list"
  log_records :: "log_record list"
  calls :: "call list"

definition connect :: "pg_world \<Rightarrow> bool \<times> pg_world" where
  "connect w = (case faults w of [] \<Rightarrow> (True, w) | b # bs \<Rightarrow> (\<not> b, w\<lparr>faults := bs\<rparr>))"

definition log_error :: "string \<Rightarrow> exn \<Rightarrow> pg_world \<Rightarrow> pg_world" where
  "log_error msg e w = w\<lparr>log_records := log_records w @ [ERROR msg e]\<rparr>"

definition log_info :: "string \<Rightarrow> pg_world \<Rightarrow> pg_world" where
  "log_info msg w = w\<lparr>log_records := log_records w @ [INFO msg]\<rparr>"

text \<open>
  \<open>write_csv_to_staging\<close>: the \<open>try\<close> block first, returning the exception it raises (if
  any) and the state it leaves; then the function with its \<open>except Exception\<close> handler.
  \<open>fs file_path\<close> is what \<open>COPY ... FROM STDIN WITH CSV HEADER\<close> reads from the file:
  the rows, or \<open>None\<close> when \<open>open\<close> or \<open>COPY\<close> raises. \<open>COPY\<close> runs in one transaction,
  so a failed load leaves the staging table as it was.
\<close>

definition write_csv_to_staging_try ::
  "(string \<Rightarrow> string crime_row list option) \<Rightarrow> string \<Rightarrow> pg_world \<Rightarrow> exn option \<times> pg_world" where
  "write_csv_to_staging_try fs file_path w =
     (case connect w of
        (False, w1) \<Rightarrow> (Some DatabaseError, w1)
      | (True, w1) \<Rightarrow>
          (case fs file_path of
             None \<Rightarrow> (Some DatabaseError, w1)
           | Some rows \<Rightarrow> (None, w1\<lparr>crimes_staging := crimes_staging w1 @ rows\<rparr>)))"

definition write_csv_to_staging ::
  "(string \<Rightarrow> string crime_row list option) \<Rightarrow> string \<Rightarrow> pg_world \<Rightarrow> py_value \<times> pg_world" where
  "write_csv_to_staging fs file_path w =
     (case write_csv_to_staging_try fs file_path (w\<lparr>calls := calls w @ [Staged file_path]\<rparr>) of
        (Some e, w1) \<Rightarrow> (PyNone, log_error ''Error loading CSV: '' e w1)
      | (None, w1) \<Rightarrow> (PyNone, w1))"

text \<open>
  \<open>upload_staging_to_prod\<close>: \<open>INSERT INTO crimes_prod (...) SELECT ..., ST_SetSRID(
  ST_MakePoint(longitude, latitude), 4326) FROM crimes_staging\<close>. The statement has no
  \<open>WHERE\<close> and no \<open>ON CONFLICT\<close> clause. No file of the sources declares a table
  named \<open>crimes_prod\<close>, so its constraints are the parameter \<open>table_ok\<close>: the statement
  raises when the table it would produce violates them, and nothing is committed then.

  \<open>create_tables/create_prod_table.py\<close> declares the production table under the name
  \<open>crimes\<close>: \<open>crime_id\<close>, \<open>month_year\<close>, \<open>police_force\<close>, \<open>longitude\<close>, \<open>latitude\<close>
  and \<open>geo_point\<close> are \<open>NOT NULL\<close>, and \<open>crime_id\<close> is the \<open>PRIMARY KEY\<close>.
  \<open>create_table_query\<close> holds of the tables that satisfy this declaration.
\<close>

definition not_null_columns :: "('d, 'g) prod_row \<Rightarrow> bool" where
  "not_null_columns r =
     (crime_row.crime_id r \<noteq> None \<and> month_year r \<noteq> None \<and> police_force r \<noteq> None
      \<and> crime_row.longitude r \<noteq> None \<and> crime_row.latitude r \<noteq> None \<and> geo_point r \<noteq> None)"

definition create_table_query :: "('d, 'g) prod_row list \<Rightarrow> bool" where
  "create_table_query table =
     (list_all not_null_columns table \<and> distinct (map crime_row.crime_id table))"

definition insert_select :: "string crime_row \<Rightarrow> (string, geometry) prod_row" where
  "insert_select r =
     \<lparr> crime_id = crime_row.crime_id r,
       month_year = month_year r,
       police_force = police_force r,
       longitude = crime_row.longitude r,
       latitude = crime_row.latitude r,
       lsoa_code = crime_row.lsoa_code r,
       crime_type = crime_row.crime_type r,
       location_description = location_description r,
       geo_point = ST_SetSRID (ST_MakePoint (crime_row.longitude r) (crime_row.latitude r)) 4326 \<rparr>"

definition upload_staging_to_prod_try ::
  "((string, geometry) prod_row list \<Rightarrow> bool) \<Rightarrow> pg_world \<Rightarrow> exn option \<times> pg_world" where
  "upload_staging_to_prod_try table_ok w =
     (case connect w of
        (False, w1) \<Rightarrow> (Some DatabaseError, w1)
      | (True, w1) \<Rightarrow>
          (let inserted = crimes_prod w1 @ map insert_select (crimes_staging w1) in
           if table_ok inserted then (None, w1\<lparr>crimes_prod := inserted\<rparr>)
           else (Some DatabaseError, w1)))"

definition upload_staging_to_prod ::
  "((string, geometry) prod_row list \<Rightarrow> bool) \<Rightarrow> pg_world \<Rightarrow> py_value \<times> pg_world" where
  "upload_staging_to_prod table_ok w =
     (case upload_staging_to_prod_try table_ok (w\<lparr>calls := calls w @ [Merge]\<rparr>) of
        (Some e, w1) \<Rightarrow> (PyNone, log_error ''Error uploading to production: '' e w1)
      | (None, w1) \<Rightarrow> (PyNone, w1))"

definition truncate_staging_try :: "pg_world \<Rightarrow> exn option \<times> pg_world" where
  "truncate_staging_try w =
     (case connect w of
        (False, w1) \<Rightarrow> (Some DatabaseError, w1)
      | (True, w1) \<Rightarrow> (None, w1\<lparr>crimes_staging := []\<rparr>))"

definition truncate_staging :: "pg_world \<Rightarrow> py_value \<times> pg_world" where
  "truncate_staging w =
     (case truncate_staging_try (w\<lparr>calls := calls w @ [Truncate]\<rparr>) of
        (Some e, w1) \<Rightarrow> (PyNone, log_error ''Error truncating staging table: '' e w1)
      | (None, w1) \<Rightarrow> (PyNone, w1))"

text \<open>
  The loop of \<open>main\<close> (lines 192 to 209): \<open>loading_count\<close> is the counter of the source,
  and nothing follows the loop.
\<close>

fun process_files ::
  "(string \<Rightarrow> string crime_row list option) \<Rightarrow> ((string, geometry) prod_row list \<Rightarrow> bool) \<Rightarrow>
   string list \<Rightarrow> nat \<Rightarrow> pg_world \<Rightarrow> pg_world" where
  "process_files fs table_ok [] loading_count w = w"
| "process_files fs table_ok (file_path # files) loading_count w =
     (let w1 = snd (write_csv_to_staging fs file_path w);
          loading_count1 = loading_count + 1
      in if loading_count1 = 5
         then process_files fs table_ok files 0
                (snd (truncate_staging (snd (upload_staging_to_prod table_ok w1))))
         else process_files fs table_ok files loading_count1 w1)"

text \<open>
  What the specification asks of the controller, in its words: after every fifth file of
  the sequence, merge and then truncate. \<open>n\<close> is the number of files already processed.
\<close>

fun controller_calls :: "nat \<Rightarrow> string list \<Rightarrow> call list" where
  "controller_calls n [] = []"
| "controller_calls n (file_path # files) =
     Staged file_path # (if (n + 1) mod 5 = 0 then [Merge, Truncate] else [])
       @ controller_calls (n + 1) files"

text \<open>
  The same run, counted by position and written on the tables: file number \<open>n + 1\<close> of
  the sequence is loaded, and when \<open>n + 1\<close> is a multiple of five the merge and then the
  truncation follow. \<open>loaded fs files\<close> are the rows that the loads of \<open>files\<close> append
  to the staging table when the database does not fail (a file whose load raises
  contributes none), \<open>load_errors fs files\<close> the records these loads log.
\<close>

definition loaded :: "(string \<Rightarrow> string crime_row list option) \<Rightarrow> string list \<Rightarrow> string crime_row list" where
  "loaded fs files =
     concat (map (\<lambda>file_path. case fs file_path of None \<Rightarrow> [] | Some rows \<Rightarrow> rows) files)"

definition load_errors :: "(string \<Rightarrow> string crime_row list option) \<Rightarrow> string list \<Rightarrow> log_record list" where
  "load_errors fs files =
     map (\<lambda>file_path. ERROR ''Error loading CSV: '' DatabaseError)
       (filter (\<lambda>file_path. fs file_path = None) files)"

fun after_every_fifth_file ::
  "(string \<Rightarrow> string crime_row list option) \<Rightarrow> ((string, geometry) prod_row list \<Rightarrow> bool) \<Rightarrow>
   nat \<Rightarrow> string list \<Rightarrow> pg_world \<Rightarrow> pg_world" where
  "after_every_fifth_file fs table_ok n [] w = w"
| "after_every_fifth_file fs table_ok n (file_path # files) w =
     after_every_fifth_file fs table_ok (n + 1) files
       (if (n + 1) mod 5 = 0
        then snd (truncate_staging (snd (upload_staging_to_prod table_ok
               (snd (write_csv_to_staging fs file_path w)))))
        else snd (write_csv_to_staging fs file_path w))"

text \<open>
  \<open>main\<close>: the files of the window, then the loop. An exception of
  \<open>extract_relevant_csv_files\<close> is not caught. The configuration is passed as
  arguments, and the logged message is kept without its file count.
\<close>

definition main ::
  "filesystem \<Rightarrow> (string \<Rightarrow> string crime_row list option) \<Rightarrow>
   ((string, geometry) prod_row list \<Rightarrow> bool) \<Rightarrow> string \<Rightarrow> string \<Rightarrow> string \<Rightarrow> pg_world \<Rightarrow>
   exn + pg_world" where
  "main os fs table_ok data_folder start_date end_date w =
     (case extract_relevant_csv_files os data_folder start_date end_date of
        Inl e \<Rightarrow> Inl e
      | Inr files \<Rightarrow>
          Inr (process_files fs table_ok files 0
                 (log_info ''Preparing to ingest files to staging and production.'' w)))"

section \<open>The BigQuery merge (bigquery/prod/insert.py)\<close>

text \<open>
  The state of the BigQuery side: the two tables, whether the query job raises (network,
  permissions), and what was logged.
\<close>

record ('d, 'g) bq_world =
  staging_table :: "staging_row list"
  production_table :: "('d, 'g) prod_row list"
  job_fails :: bool
  bq_log :: "log_record list"

text \<open>
  SQL applies a function to a nullable argument strictly: \<open>NULL\<close> in, \<open>NULL\<close> out. The
  outer \<open>option\<close> of the result is \<open>None\<close> when the function raises on its argument.
\<close>

definition sql_apply :: "('a \<Rightarrow> 'b option) \<Rightarrow> 'a option \<Rightarrow> 'b option option" where
  "sql_apply f a = (case a of None \<Rightarrow> Some None | Some x \<Rightarrow> map_option Some (f x))"

definition sql_apply2 ::
  "('a \<Rightarrow> 'b \<Rightarrow> 'c option) \<Rightarrow> 'a option \<Rightarrow> 'b option \<Rightarrow> 'c option option" where
  "sql_apply2 f a b =
     (case a of None \<Rightarrow> Some None
      | Some x \<Rightarrow> (case b of None \<Rightarrow> Some None | Some y \<Rightarrow> map_option Some (f x y)))"

text \<open>SQL equality in a join condition: a \<open>NULL\<close> on either side never matches.\<close>

definition sql_eq :: "'a option \<Rightarrow> 'a option \<Rightarrow> bool" where
  "sql_eq a b = (case a of None \<Rightarrow> False | Some x \<Rightarrow> (case b of None \<Rightarrow> False | Some y \<Rightarrow> x = y))"

text \<open>
  The \<open>USING\<close> subquery of the \<open>MERGE\<close>: its \<open>WHERE\<close> clause tests \<open>longitude\<close> and
  \<open>crime_id\<close>, and its select list renames the columns, parses the month and builds the
  point. \<open>PARSE_DATE('%Y-%m', _)\<close> and \<open>ST_GEOGPOINT\<close> are functions of the query engine
  and parameters here (\<open>None\<close>: the function raises, which fails the whole statement).
\<close>

definition merge_where :: "staging_row \<Rightarrow> bool" where
  "merge_where s = (staging_row.longitude s \<noteq> None \<and> staging_row.crime_id s \<noteq> None)"

definition merge_select ::
  "(string \<Rightarrow> 'd option) \<Rightarrow> (real \<Rightarrow> real \<Rightarrow> 'g option) \<Rightarrow> staging_row \<Rightarrow> ('d, 'g) prod_row option" where
  "merge_select parse_date st_geogpoint s =
     (case sql_apply parse_date (month s) of
        None \<Rightarrow> None
      | Some parsed \<Rightarrow>
          (case sql_apply2 st_geogpoint (staging_row.longitude s) (staging_row.latitude s) of
             None \<Rightarrow> None
           | Some point \<Rightarrow>
               Some \<lparr> crime_id = staging_row.crime_id s,
                      month_year = parsed,
                      police_force = falls_within s,
                      longitude = staging_row.longitude s,
                      latitude = staging_row.latitude s,
                      lsoa_code = staging_row.lsoa_code s,
                      crime_type = staging_row.crime_type s,
                      location_description = location s,
                      geo_point = point \<rparr>))"

text \<open>\<open>ON prod.crime_id = stage.crime_id AND prod.month_year = stage.month_year\<close>.\<close>

definition merge_on :: "('d, 'g) prod_row \<Rightarrow> ('d, 'g) prod_row \<Rightarrow> bool" where
  "merge_on prod_r stage_r =
     (sql_eq (crime_row.crime_id prod_r) (crime_row.crime_id stage_r)
      \<and> sql_eq (month_year prod_r) (month_year stage_r))"

text \<open>
  \<open>load_staging_to_production\<close>. \<open>WHEN NOT MATCHED THEN INSERT\<close> inserts every row of
  the subquery that no row of the production table matches; the rows of the subquery are
  not compared with each other. The schema of the production table is not part of the
  sources: \<open>schema_ok\<close> says which rows its column modes accept, and the statement raises
  when a row to insert is not accepted. The function has no handler and no \<open>return\<close>
  statement: it raises what the job raises, and returns \<open>None\<close> otherwise.
\<close>

definition load_staging_to_production ::
  "(string \<Rightarrow> 'd option) \<Rightarrow> (real \<Rightarrow> real \<Rightarrow> 'g option) \<Rightarrow> (('d, 'g) prod_row \<Rightarrow> bool) \<Rightarrow>
   ('d, 'g) bq_world \<Rightarrow> (exn + py_value) \<times> ('d, 'g) bq_world" where
  "load_staging_to_production parse_date st_geogpoint schema_ok w =
     (let w1 = w\<lparr>bq_log := bq_log w
                 @ [INFO ''Starting query job to load data from staging to production...'']\<rparr>
      in if job_fails w1 then (Inl DatabaseError, w1)
         else
           (case those (map (merge_select parse_date st_geogpoint)
                          (filter merge_where (staging_table w1))) of
              None \<Rightarrow> (Inl DatabaseError, w1)
            | Some stage \<Rightarrow>
                (let not_matched =
                       filter (\<lambda>s. \<not> list_ex (\<lambda>p. merge_on p s) (production_table w1)) stage
                 in if list_all schema_ok not_matched
                    then (Inr PyNone,
                          w1\<lparr>production_table := production_table w1 @ not_matched,
                             bq_log := bq_log w1
                               @ [INFO ''Data successfully loaded into production table.'']\<rparr>)
                    else (Inl DatabaseError, w1))))"

text \<open>The validity invariant of the specification, in its words.\<close>

definition valid_record :: "('d, 'g) prod_row \<Rightarrow> bool" where
  "valid_record r =
     (crime_row.crime_id r \<noteq> None \<and> crime_row.longitude r \<noteq> None \<and> crime_row.latitude r \<noteq> None)"

definition natural_key :: "('d, 'g) prod_row \<Rightarrow> string option \<times> 'd option" where
  "natural_key r = (crime_row.crime_id r, month_year r)"

definition production_invariant :: "('d, 'g) prod_row list \<Rightarrow> bool" where
  "production_invariant table = (list_all valid_record table \<and> distinct (map natural_key table))"

text \<open>
  What a merge relies on the declaration of the production table for: constraints that
  enforce the invariant on every table they accept, and a schema that accepts no row
  without \<open>latitude\<close>.
\<close>

definition enforces_invariant :: "(('d, 'g) prod_row list \<Rightarrow> bool) \<Rightarrow> bool" where
  "enforces_invariant table_ok = (\<forall>table. table_ok table \<longrightarrow> production_invariant table)"

definition requires_latitude :: "(('d, 'g) prod_row \<Rightarrow> bool) \<Rightarrow> bool" where
  "requires_latitude schema_ok = (\<forall>r. schema_ok r \<longrightarrow> crime_row.latitude r \<noteq> None)"

text \<open>What the merge does establish: the two columns its \<open>WHERE\<close> clause tests.\<close>

definition filtered_record :: "('d, 'g) prod_row \<Rightarrow> bool" where
  "filtered_record r = (crime_row.crime_id r \<noteq> None \<and> crime_row.longitude r \<noteq> None)"

text \<open>The key a staging row gets in the subquery.\<close>

definition staged_key :: "(string \<Rightarrow> 'd option) \<Rightarrow> staging_row \<Rightarrow> string option \<times> 'd option" where
  "staged_key parse_date s = (staging_row.crime_id s, Option.bind (month s) parse_date)"

section \<open>The proximity query service (app.py)\<close>

text \<open>
  The database as \<open>get_crimes\<close> meets it: whether \<open>get_connection\<close> succeeds, whether
  \<open>execute\<close> and \<open>fetchall\<close> succeed, and the production table.
\<close>

record backend =
  connects :: bool
  executes :: bool
  prod_table :: "(string, geometry) prod_row list"

text \<open>
  The \<open>WHERE\<close> clause: \<open>ST_DWithin(geo_point, ST_SetSRID(ST_MakePoint(lon, lat), 4326),
  radius)\<close>. The geodetic distance test of PostGIS is the parameter \<open>st_dwithin\<close>; a
  \<open>NULL\<close> point makes the condition \<open>NULL\<close>, and the row is not selected.
\<close>

definition where_within ::
  "(geometry \<Rightarrow> geometry \<Rightarrow> real \<Rightarrow> bool) \<Rightarrow> real \<Rightarrow> real \<Rightarrow> real \<Rightarrow>
   (string, geometry) prod_row \<Rightarrow> bool" where
  "where_within st_dwithin lon lat radius r =
     (case geo_point r of
        None \<Rightarrow> False
      | Some g \<Rightarrow>
          (case ST_SetSRID (ST_MakePoint (Some lon) (Some lat)) 4326 of
             None \<Rightarrow> False
           | Some q \<Rightarrow> st_dwithin g q radius))"

text \<open>
  The body of the \<open>try\<close> block once the connection is open: it raises the driver's
  error, or \<open>HTTPException(404)\<close> on an empty result, or returns the rows (the eight
  selected columns).
\<close>

definition get_crimes_try ::
  "(geometry \<Rightarrow> geometry \<Rightarrow> real \<Rightarrow> bool) \<Rightarrow> backend \<Rightarrow> real \<Rightarrow> real \<Rightarrow> real \<Rightarrow>
   exn + string crime_row list" where
  "get_crimes_try st_dwithin db lon lat radius =
     (if \<not> executes db then Inl DatabaseError
      else
        (let results = map crime_row.truncate
               (filter (where_within st_dwithin lon lat radius) (prod_table db))
         in if results = [] then Inl (HTTPException 404 ''No crimes found in the given area.'')
            else Inr results))"

text \<open>
  \<open>get_crimes\<close> with its handlers. \<open>except Exception as e\<close> catches whatever the block
  raised, the \<open>HTTPException(404)\<close> included (it derives from \<open>Exception\<close>), and raises
  \<open>HTTPException(500, detail=str(e))\<close>; \<open>str_of\<close> is Python's \<open>str\<close> on exceptions.
  When \<open>get_connection\<close> itself raises, \<open>conn\<close> was never bound, and \<open>conn.close()\<close>
  in the \<open>finally\<close> clause raises \<open>UnboundLocalError\<close> in place of the
  \<open>HTTPException\<close>.
\<close>

definition get_crimes ::
  "(geometry \<Rightarrow> geometry \<Rightarrow> real \<Rightarrow> bool) \<Rightarrow> (exn \<Rightarrow> string) \<Rightarrow> backend \<Rightarrow>
   real \<Rightarrow> real \<Rightarrow> real \<Rightarrow> exn + string crime_row list" where
  "get_crimes st_dwithin str_of db lon lat radius =
     (if \<not> connects db then Inl (UnboundLocalError ''conn'')
      else
        (case get_crimes_try st_dwithin db lon lat radius of
           Inl e \<Rightarrow> Inl (HTTPException 500 (str_of e))
         | Inr results \<Rightarrow> Inr results))"

text \<open>
  The status of the HTTP response the framework sends: 200 for a returned value, the
  code of an \<open>HTTPException\<close>, 500 for any other exception.
\<close>

definition status_code :: "exn + 'a \<Rightarrow> nat" where
  "status_code r =
     (case r of
        Inr _ \<Rightarrow> 200
      | Inl e \<Rightarrow> (case e of HTTPException code _ \<Rightarrow> code | _ \<Rightarrow> 500))"

definition working_backend :: "(string, geometry) prod_row list \<Rightarrow> backend" where
  "working_backend table = \<lparr> connects = True, executes = True, prod_table = table \<rparr>"

section \<open>The record normalizer (extract/common/transformations.py)\<close>

definition SELECT_COLS :: "string list" where
  "SELECT_COLS = [''crime_id'', ''month'', ''falls_within'', ''longitude'', ''latitude'',
                  ''lsoa_code'', ''crime_type'', ''location'']"

definition RENAMED_COLUMNS :: "string list" where
  "RENAMED_COLUMNS = [''crime_id'', ''month_year'', ''police_force'', ''longitude'', ''latitude'',
                      ''lsoa_code'', ''crime_type'', ''location_description'']"

text \<open>
  A pandas table: its column labels (which may repeat) and its rows, one cell per column;
  \<open>None\<close> is a missing value (\<open>NaN\<close>), the cells that \<open>notna\<close> rejects. The row index
  plays no part in \<open>format_dataframe\<close> and is left out.
\<close>

record 'a DataFrame =
  columns :: "string list"
  data :: "'a option list list"

text \<open>
  \<open>col.replace(" ", "_").lower()\<close>, on ASCII column names (a \<open>char\<close> is a byte).
\<close>

definition lower_char :: "char \<Rightarrow> char" where
  "lower_char c =
     (case map_of (zip ''ABCDEFGHIJKLMNOPQRSTUVWXYZ'' ''abcdefghijklmnopqrstuvwxyz'') c of
        None \<Rightarrow> c
      | Some l \<Rightarrow> l)"

definition normalise_column :: "string \<Rightarrow> string" where
  "normalise_column col = map lower_char (map (\<lambda>c. if c = CHR '' '' then CHR ''_'' else c) col)"

text \<open>\<open>df.empty\<close>: an axis of length zero.\<close>

definition df_empty :: "'a DataFrame \<Rightarrow> bool" where
  "df_empty df = (columns df = [] \<or> data df = [])"

text \<open>
  \<open>df[names]\<close>: a new table with, for each name in turn, every column carrying that
  label. (\<open>format_dataframe\<close> calls it only after checking that each name is present.)
\<close>

definition positions :: "'k list \<Rightarrow> 'k \<Rightarrow> nat list" where
  "positions xs x = filter (\<lambda>i. xs ! i = x) [0..<length xs]"

definition getitem :: "'a DataFrame \<Rightarrow> string list \<Rightarrow> 'a DataFrame" where
  "getitem df names =
     (let idx = concat (map (positions (columns df)) names)
      in \<lparr> columns = map (\<lambda>i. columns df ! i) idx,
           data = map (\<lambda>r. map (\<lambda>i. r ! i) idx) (data df) \<rparr>)"

text \<open>\<open>df[name]\<close> for a label that occurs once: the cell of a row in that column.\<close>

definition cell :: "string list \<Rightarrow> string \<Rightarrow> 'a option list \<Rightarrow> 'a option" where
  "cell cols name r = r ! length (takeWhile (\<lambda>c. c \<noteq> name) cols)"

text \<open>\<open>drop_duplicates\<close> keeps the first of equal rows; missing values count as equal.\<close>

fun drop_duplicates_seen :: "'r list \<Rightarrow> 'r list \<Rightarrow> 'r list" where
  "drop_duplicates_seen seen [] = []"
| "drop_duplicates_seen seen (r # rs) =
     (if r \<in> set seen then drop_duplicates_seen seen rs
      else r # drop_duplicates_seen (r # seen) rs)"

definition drop_duplicates :: "'a DataFrame \<Rightarrow> 'a DataFrame" where
  "drop_duplicates df = df\<lparr>data := drop_duplicates_seen [] (data df)\<rparr>"

text \<open>
  \<open>format_dataframe\<close> returns what it raises or returns, and the table its argument
  refers to after the call: \<open>df.columns = [...]\<close> on line 51 assigns to the caller's
  table, before \<open>df = df[SELECT_COLS]\<close> rebinds the local name to a new one. Assigning
  eight labels to a table with another number of columns raises \<open>ValueError\<close>.
\<close>

definition format_dataframe :: "'a DataFrame \<Rightarrow> (exn + 'a DataFrame) \<times> 'a DataFrame" where
  "format_dataframe df =
     (if df_empty df then (Inl (ValueError ''Input DataFrame is empty.''), df)
      else
        (let df0 = df\<lparr>columns := map normalise_column (columns df)\<rparr>;
             missing_cols = filter (\<lambda>col. col \<notin> set (columns df0)) SELECT_COLS
         in if missing_cols \<noteq> [] then (Inl (KeyError missing_cols), df0)
            else
              (let df1 = getitem df0 SELECT_COLS
               in if length (columns df1) \<noteq> length RENAMED_COLUMNS
                  then (Inl (ValueError ''Length mismatch''), df0)
                  else
                    (let df2 = df1\<lparr>columns := RENAMED_COLUMNS\<rparr>;
                         df3 = df2\<lparr>data := filter (\<lambda>r. cell (columns df2) ''longitude'' r \<noteq> None
                                   \<and> cell (columns df2) ''latitude'' r \<noteq> None) (data df2)\<rparr>;
                         df4 = df3\<lparr>data := filter (\<lambda>r. cell (columns df3) ''crime_id'' r \<noteq> None)
                                   (data df3)\<rparr>;
                         df5 = drop_duplicates df4
                     in (Inr df5, df0)))))"

text \<open>A table as read from a source file: four rows, one of them complete and unique.\<close>

definition raw_columns :: "string list" where
  "raw_columns = [''Crime ID'', ''Month'', ''Reported by'', ''Falls within'', ''Longitude'',
                  ''Latitude'', ''Location'', ''LSOA code'', ''LSOA name'', ''Crime type'']"

definition raw_row :: "string option \<Rightarrow> string option \<Rightarrow> string option list" where
  "raw_row cid lon =
     [cid, Some ''2023-07'', Some ''Lancashire Constabulary'', Some ''Lancashire Constabulary'',
      lon, Some ''53.8'', Some ''On or near High Street'', None, None, Some ''Burglary'']"

definition raw_table :: "string DataFrame" where
  "raw_table = \<lparr> columns = raw_columns,
     data = [raw_row (Some ''a1'') (Some ''-2.5''), raw_row (Some ''a1'') None,
             raw_row (Some ''a1'') (Some ''-2.5''), raw_row None (Some ''-2.5'')] \<rparr>"

text \<open>
  The words of the specification: a row has its three required fields; the rows of the
  input, cut down to the eight required columns; each required column name occurs exactly
  once among the normalised names of the table.
\<close>

definition required_present :: "'a option list \<Rightarrow> bool" where
  "required_present r =
     (cell RENAMED_COLUMNS ''longitude'' r \<noteq> None \<and> cell RENAMED_COLUMNS ''latitude'' r \<noteq> None
      \<and> cell RENAMED_COLUMNS ''crime_id'' r \<noteq> None)"

definition selected_rows :: "'a DataFrame \<Rightarrow> 'a option list list" where
  "selected_rows df = data (getitem (df\<lparr>columns := map normalise_column (columns df)\<rparr>) SELECT_COLS)"

definition each_exactly_once :: "'a DataFrame \<Rightarrow> bool" where
  "each_exactly_once df =
     list_all (\<lambda>c. count_list (map normalise_column (columns df)) c = 1) SELECT_COLS"

text \<open>Concrete inputs for the evaluations below.\<close>

definition example_row :: "string \<Rightarrow> string crime_row" where
  "example_row cid =
     \<lparr> crime_id = Some cid,
       month_year = Some ''2023-07'',
       police_force = Some ''Lancashire Constabulary'',
       longitude = Some (- 2.5),
       latitude = Some 53.8,
       lsoa_code = None,
       crime_type = Some ''Burglary'',
       location_description = Some ''On or near High Street'' \<rparr>"

definition one_row_per_file :: "string \<Rightarrow> string crime_row list option" where
  "one_row_per_file file_path = Some [example_row file_path]"

definition empty_world :: pg_world where
  "empty_world = \<lparr> crimes_staging = [], crimes_prod = [], faults = [], log_records = [], calls = [] \<rparr>"

definition five_files :: "string list" where
  "five_files = [''d/r/2023/01.csv'', ''d/r/2023/02.csv'', ''d/r/2023/03.csv'',
                 ''d/r/2023/04.csv'', ''d/r/2023/05.csv'']"

definition twelve_files :: "string list" where
  "twelve_files = five_files @
     [''d/r/2023/06.csv'', ''d/r/2023/07.csv'', ''d/r/2023/08.csv'', ''d/r/2023/09.csv'',
      ''d/r/2023/10.csv'', ''d/r/2023/11.csv'', ''d/r/2023/12.csv'']"

definition no_constraint :: "(string, geometry) prod_row list \<Rightarrow> bool" where
  "no_constraint table = True"

definition merges :: "call list \<Rightarrow> nat" where
  "merges cs = length (filter (\<lambda>c. c = Merge) cs)"


definition merge_fails_after_five :: pg_world where
  "merge_fails_after_five = empty_world\<lparr>faults := [False, False, False, False, False, True]\<rparr>"

definition duplicate_key_world :: pg_world where
  "duplicate_key_world = empty_world
     \<lparr>crimes_staging := [example_row ''a1'', example_row ''b2''],
      crimes_prod := [insert_select (example_row ''a1'')]\<rparr>"

definition unreadable_third :: "string \<Rightarrow> string crime_row list option" where
  "unreadable_third file_path =
     (if file_path = ''d/r/2023/03.csv'' then None else Some [example_row file_path])"

definition staged :: "string \<Rightarrow> string \<Rightarrow> real option \<Rightarrow> staging_row" where
  "staged cid ctype lat =
     \<lparr> staging_row.crime_id = Some cid,
       month = Some ''2023-07'',
       falls_within = Some ''Lancashire Constabulary'',
       staging_row.longitude = Some (- 2.5),
       staging_row.latitude = lat,
       staging_row.lsoa_code = None,
       staging_row.crime_type = Some ctype,
       location = Some ''On or near High Street'' \<rparr>"

definition keep_text :: "string \<Rightarrow> string option" where
  "keep_text m = Some m"

definition lon_lat :: "real \<Rightarrow> real \<Rightarrow> (real \<times> real) option" where
  "lon_lat x y = Some (x, y)"

definition all_nullable :: "(string, real \<times> real) prod_row \<Rightarrow> bool" where
  "all_nullable r = True"

definition bq_world_of :: "staging_row list \<Rightarrow> (string, real \<times> real) bq_world" where
  "bq_world_of rows = \<lparr> staging_table = rows, production_table = [], job_fails = False, bq_log = [] \<rparr>"

definition bq_example_world :: "(string, real \<times> real) bq_world" where
  "bq_example_world =
     \<lparr> staging_table = [staged ''a1'' ''Burglary'' (Some 53.8), staged ''b2'' ''Robbery'' (Some 53.8)],
       production_table = [the (merge_select keep_text lon_lat (staged ''a1'' ''Burglary'' (Some 53.8)))],
       job_fails = False, bq_log = [] \<rparr>"

definition one_staged_world :: pg_world where
  "one_staged_world = empty_world\<lparr>crimes_staging := [example_row ''a1'']\<rparr>"

definition example_os :: filesystem where
  "example_os =
     \<lparr> path_exists = (\<lambda>p. p = ''data''),
       walk = (\<lambda>p. if p = ''data'' then
          [(''data'', [''lancashire''], [''stray.csv'']),
           (''data/lancashire'', [''2022'', ''2023''], []),
           (''data/lancashire/2022'', [], [''07.csv'']),
           (''data/lancashire/2023'', [], [''07.csv'', ''08.csv'', ''09.csv'', ''10.csv'', ''notes.txt''])]
          else []) \<rparr>"

definition misplaced_os :: filesystem where
  "misplaced_os =
     \<lparr> path_exists = (\<lambda>p. p = ''e''),
       walk = (\<lambda>p. if p = ''e'' then
          [(''e'', [''2023'', ''r''], []),
           (''e/2023'', [], [''08.csv'']),
           (''e/r'', [''2023'', ''x''], []),
           (''e/r/2023'', [], [''0.csv8.csv'', ''10.csv'']),
           (''e/r/x'', [''y''], []),
           (''e/r/x/y'', [''2023''], []),
           (''e/r/x/y/2023'', [], [''07.csv''])]
          else []) \<rparr>"

definition early_os :: filesystem where
  "early_os =
     \<lparr> path_exists = (\<lambda>p. p = ''y''),
       walk = (\<lambda>p. if p = ''y'' then
          [(''y'', [''r''], []),
           (''y/r'', [''0999'', ''999''], []),
           (''y/r/0999'', [], [''01.csv'']),
           (''y/r/999'', [], [''01.csv''])]
          else []) \<rparr>"

definition repeated_label_table :: "string DataFrame" where
  "repeated_label_table =
     \<lparr> columns = ''crime_id'' # raw_columns,
       data = [Some ''a1'' # raw_row (Some ''a1'') (Some ''-2.5'')] \<rparr>"

section \<open>Properties of the batch controller\<close>

lemma calls_write_csv_to_staging:
  "calls (snd (write_csv_to_staging fs file_path w)) = calls w @ [Staged file_path]"
  by (simp add: write_csv_to_staging_def write_csv_to_staging_try_def connect_def log_error_def
      split: list.splits option.splits bool.splits)

lemma calls_upload_staging_to_prod:
  "calls (snd (upload_staging_to_prod table_ok w)) = calls w @ [Merge]"
  by (simp add: upload_staging_to_prod_def upload_staging_to_prod_try_def connect_def log_error_def
      Let_def split: list.splits option.splits bool.splits)

lemma calls_truncate_staging:
  "calls (snd (truncate_staging w)) = calls w @ [Truncate]"
  by (simp add: truncate_staging_def truncate_staging_try_def connect_def log_error_def
      split: list.splits option.splits bool.splits)

lemma calls_process_files:
  "loading_count < 5 \<Longrightarrow> n mod 5 = loading_count \<Longrightarrow>
   calls (process_files fs table_ok files loading_count w) = calls w @ controller_calls n files"
proof (induction files arbitrary: loading_count n w)
  case Nil
  then show ?case by simp
next
  case (Cons file_path files)
  show ?case
  proof (cases "loading_count + 1 = 5")
    case True
    with Cons.prems have "(n + 1) mod 5 = 0" by presburger
    moreover have "(n + 1) mod 5 = 0 \<Longrightarrow> (0::nat) < 5 \<and> (n + 1) mod 5 = 0" by simp
    ultimately show ?thesis
      using True Cons.IH [of 0 "n + 1"]
      by (simp add: calls_write_csv_to_staging calls_upload_staging_to_prod calls_truncate_staging)
  next
    case False
    with Cons.prems have "loading_count + 1 < 5" "(n + 1) mod 5 = loading_count + 1"
      by presburger+
    then show ?thesis
      using False Cons.IH [of "loading_count + 1" "n + 1"]
      by (simp add: calls_write_csv_to_staging)
  qed
qed

lemma merges_controller_calls:
  "merges (controller_calls n files) = (n + length files) div 5 - n div 5"
proof (induction files arbitrary: n)
  case Nil
  then show ?case by (simp add: merges_def)
next
  case (Cons file_path files)
  define rest where "rest = merges (controller_calls (n + 1) files)"
  define total where "total = (n + 1 + length files) div 5"
  have ih: "rest = total - (n + 1) div 5"
    unfolding rest_def total_def by (rule Cons.IH)
  have mono: "(n + 1) div 5 \<le> total"
    unfolding total_def by (rule div_le_mono) simp
  have goal: "(n + length (file_path # files)) div 5 = total"
    unfolding total_def by simp
  show ?case
  proof (cases "(n + 1) mod 5 = 0")
    case True
    then have "merges (controller_calls n (file_path # files)) = 1 + rest"
      by (simp add: merges_def rest_def)
    moreover from True have "(n + 1) div 5 = n div 5 + 1" by presburger
    ultimately show ?thesis using ih mono unfolding goal by linarith
  next
    case False
    then have "merges (controller_calls n (file_path # files)) = rest"
      by (simp add: merges_def rest_def)
    moreover from False have "(n + 1) div 5 = n div 5" by presburger
    ultimately show ?thesis using ih mono unfolding goal by linarith
  qed
qed

lemma failed_load_is_logged:
  assumes "fst (write_csv_to_staging_try fs file_path (w\<lparr>calls := calls w @ [Staged file_path]\<rparr>)) = Some e"
  shows "log_records (snd (write_csv_to_staging fs file_path w)) =
           log_records w @ [ERROR ''Error loading CSV: '' e]"
    and "crimes_staging (snd (write_csv_to_staging fs file_path w)) = crimes_staging w"
  using assms
  by (auto simp: write_csv_to_staging_def write_csv_to_staging_try_def connect_def log_error_def
      split: list.splits option.splits bool.splits if_splits)

subsection \<open>Closed forms of the three database functions\<close>

lemma process_files_Cons:
  "process_files fs table_ok (file_path # files) loading_count w =
     (if loading_count + 1 = 5
      then process_files fs table_ok files 0
             (snd (truncate_staging (snd (upload_staging_to_prod table_ok
                (snd (write_csv_to_staging fs file_path w))))))
      else process_files fs table_ok files (loading_count + 1)
             (snd (write_csv_to_staging fs file_path w)))"
  by (simp add: Let_def)

lemma write_csv_to_staging_ok:
  "faults w = [] \<Longrightarrow> fs file_path = Some rows \<Longrightarrow>
   snd (write_csv_to_staging fs file_path w) =
     w\<lparr>crimes_staging := crimes_staging w @ rows, calls := calls w @ [Staged file_path]\<rparr>"
  by (simp add: write_csv_to_staging_def write_csv_to_staging_try_def connect_def)

lemma write_csv_to_staging_ok':
  "faults w = False # bs \<Longrightarrow> fs file_path = Some rows \<Longrightarrow>
   snd (write_csv_to_staging fs file_path w) =
     w\<lparr>crimes_staging := crimes_staging w @ rows, faults := bs,
       calls := calls w @ [Staged file_path]\<rparr>"
  by (simp add: write_csv_to_staging_def write_csv_to_staging_try_def connect_def)

lemma upload_staging_to_prod_ok:
  "faults w = [] \<Longrightarrow> table_ok (crimes_prod w @ map insert_select (crimes_staging w)) \<Longrightarrow>
   snd (upload_staging_to_prod table_ok w) =
     w\<lparr>crimes_prod := crimes_prod w @ map insert_select (crimes_staging w),
       calls := calls w @ [Merge]\<rparr>"
  by (simp add: upload_staging_to_prod_def upload_staging_to_prod_try_def connect_def)

lemma upload_staging_to_prod_rejected:
  "faults w = [] \<Longrightarrow> \<not> table_ok (crimes_prod w @ map insert_select (crimes_staging w)) \<Longrightarrow>
   snd (upload_staging_to_prod table_ok w) =
     w\<lparr>log_records := log_records w @ [ERROR ''Error uploading to production: '' DatabaseError],
       calls := calls w @ [Merge]\<rparr>"
  by (simp add: upload_staging_to_prod_def upload_staging_to_prod_try_def connect_def log_error_def)

lemma upload_staging_to_prod_fault:
  "faults w = True # bs \<Longrightarrow>
   snd (upload_staging_to_prod table_ok w) =
     w\<lparr>faults := bs,
       log_records := log_records w @ [ERROR ''Error uploading to production: '' DatabaseError],
       calls := calls w @ [Merge]\<rparr>"
  by (simp add: upload_staging_to_prod_def upload_staging_to_prod_try_def connect_def log_error_def)

lemma truncate_staging_ok:
  "faults w = [] \<Longrightarrow>
   snd (truncate_staging w) = w\<lparr>crimes_staging := [], calls := calls w @ [Truncate]\<rparr>"
  by (simp add: truncate_staging_def truncate_staging_try_def connect_def)

lemma process_files_after_every_fifth_file:
  "loading_count < 5 \<Longrightarrow> n mod 5 = loading_count \<Longrightarrow>
   process_files fs table_ok files loading_count w = after_every_fifth_file fs table_ok n files w"
proof (induction files arbitrary: loading_count n w)
  case Nil
  then show ?case by simp
next
  case (Cons file_path files)
  show ?case
  proof (cases "loading_count + 1 = 5")
    case True
    with Cons.prems have m: "(n + 1) mod 5 = 0" by presburger
    then have "(0::nat) < 5 \<and> (n + 1) mod 5 = 0" by simp
    then show ?thesis
      using True m Cons.IH [of 0 "n + 1"] by (simp add: process_files_Cons del: process_files.simps(2))
  next
    case False
    with Cons.prems have "loading_count + 1 < 5" "(n + 1) mod 5 = loading_count + 1"
      by presburger+
    then show ?thesis
      using False Cons.IH [of "loading_count + 1" "n + 1"]
      by (simp add: process_files_Cons del: process_files.simps(2))
  qed
qed

lemma write_csv_to_staging_closed:
  "faults w = [] \<Longrightarrow>
   snd (write_csv_to_staging fs file_path w) =
     w\<lparr>crimes_staging := crimes_staging w @ loaded fs [file_path],
       log_records := log_records w @ load_errors fs [file_path],
       calls := calls w @ [Staged file_path]\<rparr>"
  by (cases "fs file_path")
    (simp_all add: write_csv_to_staging_def write_csv_to_staging_try_def connect_def log_error_def
      loaded_def load_errors_def)

lemma loaded_Cons: "loaded fs (file_path # files) = loaded fs [file_path] @ loaded fs files"
  by (simp add: loaded_def)

lemma load_errors_Cons:
  "load_errors fs (file_path # files) = load_errors fs [file_path] @ load_errors fs files"
  by (simp add: load_errors_def)

lemma loaded_append: "loaded fs (xs @ ys) = loaded fs xs @ loaded fs ys"
  by (simp add: loaded_def)

lemma load_errors_append: "load_errors fs (xs @ ys) = load_errors fs xs @ load_errors fs ys"
  by (simp add: load_errors_def)

lemma process_files_loads_only:
  "faults w = [] \<Longrightarrow> loading_count + length files < 5 \<Longrightarrow>
   process_files fs table_ok files loading_count w =
     w\<lparr>crimes_staging := crimes_staging w @ loaded fs files,
       log_records := log_records w @ load_errors fs files,
       calls := calls w @ map Staged files\<rparr>"
proof (induction files arbitrary: loading_count w)
  case Nil
  then show ?case by (simp add: loaded_def load_errors_def)
next
  case (Cons file_path files)
  let ?w1 = "w\<lparr>crimes_staging := crimes_staging w @ loaded fs [file_path],
       log_records := log_records w @ load_errors fs [file_path],
       calls := calls w @ [Staged file_path]\<rparr>"
  have f1: "faults ?w1 = []" using Cons.prems by simp
  from Cons.prems have lt: "loading_count + 1 + length files < 5" by simp
  have "process_files fs table_ok (file_path # files) loading_count w =
      process_files fs table_ok files (loading_count + 1) ?w1"
    using Cons.prems by (simp add: process_files_Cons write_csv_to_staging_closed del: process_files.simps(2))
  also have "\<dots> = ?w1\<lparr>crimes_staging := crimes_staging ?w1 @ loaded fs files,
       log_records := log_records ?w1 @ load_errors fs files,
       calls := calls ?w1 @ map Staged files\<rparr>"
    by (rule Cons.IH [OF f1 lt])
  finally show ?case
    by (simp add: loaded_Cons [of fs file_path files] load_errors_Cons [of fs file_path files])
qed

lemma process_files_first_batch:
  "faults w = [] \<Longrightarrow> \<forall>t. table_ok t \<Longrightarrow> loading_count < 5 \<Longrightarrow> 5 - loading_count \<le> length files \<Longrightarrow>
   process_files fs table_ok files loading_count w =
     process_files fs table_ok (drop (5 - loading_count) files) 0
       (w\<lparr>crimes_staging := [],
          crimes_prod := crimes_prod w
            @ map insert_select (crimes_staging w @ loaded fs (take (5 - loading_count) files)),
          log_records := log_records w @ load_errors fs (take (5 - loading_count) files),
          calls := calls w @ map Staged (take (5 - loading_count) files) @ [Merge, Truncate]\<rparr>)"
proof (induction files arbitrary: loading_count w)
  case Nil
  then show ?case by simp
next
  case (Cons file_path files)
  let ?w1 = "w\<lparr>crimes_staging := crimes_staging w @ loaded fs [file_path],
       log_records := log_records w @ load_errors fs [file_path],
       calls := calls w @ [Staged file_path]\<rparr>"
  have f1: "faults ?w1 = []" using Cons.prems by simp
  have ok: "table_ok t" for t using Cons.prems(2) by simp
  have w1: "snd (write_csv_to_staging fs file_path w) = ?w1"
    by (rule write_csv_to_staging_closed [OF Cons.prems(1)])
  show ?case
  proof (cases "loading_count + 1 = 5")
    case True
    then have c: "5 - loading_count = 1" by simp
    have "snd (truncate_staging (snd (upload_staging_to_prod table_ok ?w1))) =
        w\<lparr>crimes_staging := [],
          crimes_prod := crimes_prod w @ map insert_select (crimes_staging w @ loaded fs [file_path]),
          log_records := log_records w @ load_errors fs [file_path],
          calls := calls w @ [Staged file_path] @ [Merge, Truncate]\<rparr>"
      by (rule pg_world.equality;
          simp add: upload_staging_to_prod_ok [OF f1 ok] truncate_staging_ok Cons.prems(1))
    then show ?thesis
      unfolding c using True by (simp add: process_files_Cons w1 del: process_files.simps(2))
  next
    case False
    with Cons.prems have lt: "loading_count + 1 < 5" and len: "5 - (loading_count + 1) \<le> length files"
      by simp_all
    have t: "take (5 - loading_count) (file_path # files) = file_path # take (5 - (loading_count + 1)) files"
      and d: "drop (5 - loading_count) (file_path # files) = drop (5 - (loading_count + 1)) files"
      using lt by (simp_all add: take_Cons' drop_Cons')
    let ?batch = "take (5 - (loading_count + 1)) files"
    have weq: "?w1\<lparr>crimes_staging := [],
          crimes_prod := crimes_prod ?w1 @ map insert_select (crimes_staging ?w1 @ loaded fs ?batch),
          log_records := log_records ?w1 @ load_errors fs ?batch,
          calls := calls ?w1 @ map Staged ?batch @ [Merge, Truncate]\<rparr> =
        w\<lparr>crimes_staging := [],
          crimes_prod := crimes_prod w @ map insert_select (crimes_staging w @ loaded fs (file_path # ?batch)),
          log_records := log_records w @ load_errors fs (file_path # ?batch),
          calls := calls w @ map Staged (file_path # ?batch) @ [Merge, Truncate]\<rparr>"
      by (rule pg_world.equality;
          simp add: loaded_def load_errors_def)
    have "process_files fs table_ok (file_path # files) loading_count w =
        process_files fs table_ok files (loading_count + 1) ?w1"
      using False by (simp add: process_files_Cons w1 del: process_files.simps(2))
    also note Cons.IH [OF f1 Cons.prems(2) lt len]
    finally show ?thesis unfolding t d weq .
  qed
qed

lemma process_files_state:
  assumes "\<forall>t. table_ok t"
  shows "faults w = [] \<Longrightarrow>
    crimes_prod (process_files fs table_ok files 0 w) =
       (if length files < 5 then crimes_prod w
        else crimes_prod w @ map insert_select
               (crimes_staging w @ loaded fs (take (5 * (length files div 5)) files)))
    \<and> crimes_staging (process_files fs table_ok files 0 w) =
       (if length files < 5 then crimes_staging w @ loaded fs files
        else loaded fs (drop (5 * (length files div 5)) files))
    \<and> log_records (process_files fs table_ok files 0 w) = log_records w @ load_errors fs files"
proof (induction files arbitrary: w rule: length_induct)
  case (1 files)
  show ?case
  proof (cases "length files < 5")
    case True
    then show ?thesis using 1(2) by (simp add: process_files_loads_only)
  next
    case False
    let ?w1 = "w\<lparr>crimes_staging := [],
          crimes_prod := crimes_prod w @ map insert_select (crimes_staging w @ loaded fs (take 5 files)),
          log_records := log_records w @ load_errors fs (take 5 files),
          calls := calls w @ map Staged (take 5 files) @ [Merge, Truncate]\<rparr>"
    from False have len: "5 \<le> length files" by simp
    have step: "process_files fs table_ok files 0 w = process_files fs table_ok (drop 5 files) 0 ?w1"
      using process_files_first_batch [OF 1(2) assms, of 0 files fs] len by simp
    have f1: "faults ?w1 = []" using 1(2) by simp
    have shorter: "length (drop 5 files) < length files" using len by simp
    note ih = 1(1) [rule_format, OF shorter f1]
    define k where "k = 5 * (length files div 5)"
    have k5: "5 * (length (drop 5 files) div 5) = k - 5" and kge: "5 \<le> k"
      using len unfolding k_def by (simp_all, presburger+)
    have tk: "take k files = take 5 files @ take (k - 5) (drop 5 files)"
      using kge by (metis le_add_diff_inverse take_add)
    have dk: "drop (k - 5) (drop 5 files) = drop k files"
      using kge by simp
    have all: "files = take 5 files @ drop 5 files" by simp
    have errs: "load_errors fs (take 5 files) @ load_errors fs (drop 5 files) = load_errors fs files"
      by (simp add: load_errors_append [symmetric])
    show ?thesis
    proof (cases "length (drop 5 files) < 5")
      case True
      then have "k = 5" using len unfolding k_def by simp
      with ih True False errs show ?thesis
        unfolding step k_def [symmetric] by simp
    next
      case False2: False
      with ih False errs show ?thesis
        unfolding step k5 k_def [symmetric] dk tk by (simp add: loaded_append)
    qed
  qed
qed


text \<open>
  Claim C10. The batch boundary counts files processed, not files staged. Whatever the
  files hold and whichever database calls fail (\<open>fs\<close> and the faults of \<open>w\<close> are
  arbitrary), the loop leaves the state that results from loading each file in turn and
  running the merge and then the truncation after every fifth file of the sequence; its
  calls are one load per file with merge-then-truncate after every fifth, so the merge
  runs \<open>length files div 5\<close> times. When the database does not fail and the production
  table accepts the rows, the tables after the run are these, whichever loads raised: the
  rows of the files of the full batches that loaded have reached production (with the
  rows that were in staging before, once a batch is complete), staging holds the rows of
  the files after the last full batch, and one error is logged for each file whose load
  raised. A load that raises is logged by the loader, leaves the staging table as it was
  and hands the controller a normal return, so it advances the counter like any other.
\<close>

theorem batch_boundary_counts_files_processed:
  "process_files fs table_ok files 0 w = after_every_fifth_file fs table_ok 0 files w
   \<and> calls (process_files fs table_ok files 0 w) = calls w @ controller_calls 0 files
   \<and> merges (controller_calls 0 files) = length files div 5
   \<and> (faults w = [] \<and> (\<forall>t. table_ok t) \<longrightarrow>
        crimes_prod (process_files fs table_ok files 0 w) =
          (if length files < 5 then crimes_prod w
           else crimes_prod w @ map insert_select
                  (crimes_staging w @ loaded fs (take (5 * (length files div 5)) files)))
        \<and> crimes_staging (process_files fs table_ok files 0 w) =
          (if length files < 5 then crimes_staging w @ loaded fs files
           else loaded fs (drop (5 * (length files div 5)) files))
        \<and> log_records (process_files fs table_ok files 0 w) = log_records w @ load_errors fs files)
   \<and> fst (write_csv_to_staging fs file_path w) = PyNone
   \<and> (fst (write_csv_to_staging_try fs file_path (w\<lparr>calls := calls w @ [Staged file_path]\<rparr>)) = Some e
        \<longrightarrow> log_records (snd (write_csv_to_staging fs file_path w)) =
              log_records w @ [ERROR ''Error loading CSV: '' e]
            \<and> crimes_staging (snd (write_csv_to_staging fs file_path w)) = crimes_staging w)"
proof -
  have "process_files fs table_ok files 0 w = after_every_fifth_file fs table_ok 0 files w"
    by (rule process_files_after_every_fifth_file) simp_all
  moreover have "calls (process_files fs table_ok files 0 w) = calls w @ controller_calls 0 files"
    by (rule calls_process_files) simp_all
  moreover have "merges (controller_calls 0 files) = length files div 5"
    by (simp add: merges_controller_calls)
  moreover have "fst (write_csv_to_staging fs file_path w) = PyNone"
    by (simp add: write_csv_to_staging_def split: prod.splits option.splits)
  ultimately show ?thesis
    using failed_load_is_logged [of fs file_path w e] process_files_state [of table_ok w fs files]
    by blast
qed

theorem batch_boundary_counts_files_processed_witness:
  "faults empty_world = [] \<and> (\<forall>t. no_constraint t)
   \<and> process_files unreadable_third no_constraint twelve_files 0 empty_world =
       after_every_fifth_file unreadable_third no_constraint 0 twelve_files empty_world
   \<and> calls (process_files unreadable_third no_constraint twelve_files 0 empty_world) =
       map Staged five_files @ [Merge, Truncate]
       @ map Staged [''d/r/2023/06.csv'', ''d/r/2023/07.csv'', ''d/r/2023/08.csv'',
            ''d/r/2023/09.csv'', ''d/r/2023/10.csv''] @ [Merge, Truncate]
       @ map Staged [''d/r/2023/11.csv'', ''d/r/2023/12.csv'']
   \<and> merges (controller_calls 0 twelve_files) = 2
   \<and> crimes_prod (process_files unreadable_third no_constraint twelve_files 0 empty_world) =
       map (\<lambda>file_path. insert_select (example_row file_path))
         [''d/r/2023/01.csv'', ''d/r/2023/02.csv'', ''d/r/2023/04.csv'', ''d/r/2023/05.csv'',
          ''d/r/2023/06.csv'', ''d/r/2023/07.csv'', ''d/r/2023/08.csv'', ''d/r/2023/09.csv'',
          ''d/r/2023/10.csv'']
   \<and> crimes_staging (process_files unreadable_third no_constraint twelve_files 0 empty_world) =
       [example_row ''d/r/2023/11.csv'', example_row ''d/r/2023/12.csv'']
   \<and> log_records (process_files unreadable_third no_constraint twelve_files 0 empty_world) =
       [ERROR ''Error loading CSV: '' DatabaseError]
   \<and> fst (write_csv_to_staging_try unreadable_third ''d/r/2023/03.csv''
        (empty_world\<lparr>calls := calls empty_world @ [Staged ''d/r/2023/03.csv'']\<rparr>)) = Some DatabaseError
   \<and> log_records (snd (write_csv_to_staging unreadable_third ''d/r/2023/03.csv'' empty_world)) =
       [ERROR ''Error loading CSV: '' DatabaseError]
   \<and> crimes_staging (snd (write_csv_to_staging unreadable_third ''d/r/2023/03.csv'' empty_world)) = []"
proof -
  have h: "fst (write_csv_to_staging_try unreadable_third ''d/r/2023/03.csv''
        (empty_world\<lparr>calls := calls empty_world @ [Staged ''d/r/2023/03.csv'']\<rparr>)) = Some DatabaseError"
    by (simp add: write_csv_to_staging_try_def connect_def empty_world_def unreadable_third_def)
  have c: "controller_calls 0 twelve_files = map Staged five_files @ [Merge, Truncate]
       @ map Staged [''d/r/2023/06.csv'', ''d/r/2023/07.csv'', ''d/r/2023/08.csv'',
            ''d/r/2023/09.csv'', ''d/r/2023/10.csv''] @ [Merge, Truncate]
       @ map Staged [''d/r/2023/11.csv'', ''d/r/2023/12.csv'']"
    by (simp add: twelve_files_def five_files_def)
  have e: "calls empty_world = []" "log_records empty_world = []" "crimes_staging empty_world = []"
    "crimes_prod empty_world = []" "faults empty_world = []"
    by (simp_all add: empty_world_def)
  have n: "\<forall>t. no_constraint t" by (simp add: no_constraint_def)
  have l: "length twelve_files = 12" by (simp add: twelve_files_def five_files_def)
  have t: "loaded unreadable_third (take 10 twelve_files) =
       map example_row
         [''d/r/2023/01.csv'', ''d/r/2023/02.csv'', ''d/r/2023/04.csv'', ''d/r/2023/05.csv'',
          ''d/r/2023/06.csv'', ''d/r/2023/07.csv'', ''d/r/2023/08.csv'', ''d/r/2023/09.csv'',
          ''d/r/2023/10.csv'']"
    by (simp add: twelve_files_def five_files_def loaded_def unreadable_third_def)
  have d: "loaded unreadable_third (drop 10 twelve_files) =
       [example_row ''d/r/2023/11.csv'', example_row ''d/r/2023/12.csv'']"
    by (simp add: twelve_files_def five_files_def loaded_def unreadable_third_def)
  have r: "load_errors unreadable_third twelve_files = [ERROR ''Error loading CSV: '' DatabaseError]"
    by (simp add: twelve_files_def five_files_def load_errors_def unreadable_third_def)
  show ?thesis
    using h n batch_boundary_counts_files_processed
      [of unreadable_third no_constraint twelve_files empty_world "''d/r/2023/03.csv''" DatabaseError]
    unfolding c e l r by (auto simp: t d)
qed

text \<open>
  Claim C1, evaluated on the code. Twelve files, each holding one row, a database without
  faults and a production table that accepts every row: the loop merges after the fifth
  and the tenth file only. The merge runs twice, not three times; the rows of the
  eleventh and twelfth file are still in the staging table when the run ends, and only
  ten rows have reached production.
\<close>

theorem partial_final_batch_is_left_in_staging:
  "merges (calls (process_files one_row_per_file no_constraint twelve_files 0 empty_world)) = 2
   \<and> crimes_staging (process_files one_row_per_file no_constraint twelve_files 0 empty_world) =
       [example_row ''d/r/2023/11.csv'', example_row ''d/r/2023/12.csv'']
   \<and> length (crimes_prod (process_files one_row_per_file no_constraint twelve_files 0 empty_world)) = 10"
  unfolding twelve_files_def five_files_def empty_world_def
  by (simp add: process_files_Cons write_csv_to_staging_ok upload_staging_to_prod_ok
      truncate_staging_ok one_row_per_file_def no_constraint_def merges_def
      del: process_files.simps(2))

text \<open>
  Claim C2, evaluated on the code. Five files load, then the merge raises (the sixth
  database call fails). \<open>upload_staging_to_prod\<close> logs the error and returns normally,
  and the loop goes on to \<open>truncate_staging\<close>: the staging table is emptied although no
  row reached production.
\<close>

theorem staging_is_truncated_after_failed_merge:
  "crimes_staging (process_files one_row_per_file no_constraint five_files 0 merge_fails_after_five) = []
   \<and> crimes_prod (process_files one_row_per_file no_constraint five_files 0 merge_fails_after_five) = []
   \<and> log_records (process_files one_row_per_file no_constraint five_files 0 merge_fails_after_five) =
       [ERROR ''Error uploading to production: '' DatabaseError]
   \<and> calls (process_files one_row_per_file no_constraint five_files 0 merge_fails_after_five) =
       map Staged five_files @ [Merge, Truncate]"
  unfolding five_files_def empty_world_def merge_fails_after_five_def
  by (simp add: process_files_Cons write_csv_to_staging_ok' upload_staging_to_prod_fault
      truncate_staging_ok one_row_per_file_def del: process_files.simps(2))

text \<open>
  Claim C4, evaluated on the PostgreSQL merge. Production holds the row with key
  \<open>(a1, 2023-07)\<close>; staging holds a row with the same key and a new row \<open>b2\<close>. Whatever
  the constraints of the production table are, the statement either appends both staging
  rows (the key \<open>a1\<close> is then stored twice) or is rejected as a whole (the new row \<open>b2\<close> is
  then not inserted): it never inserts only the absent row. Without constraints, merging
  the same staging content a second time adds the rows again.
\<close>

theorem upload_staging_to_prod_is_a_plain_insert:
  "map crime_row.crime_id (crimes_prod (snd (upload_staging_to_prod no_constraint duplicate_key_world))) =
     [Some ''a1'', Some ''a1'', Some ''b2'']
   \<and> (\<forall>table_ok. crimes_prod (snd (upload_staging_to_prod table_ok duplicate_key_world)) \<noteq>
         [insert_select (example_row ''a1''), insert_select (example_row ''b2'')])
   \<and> length (crimes_prod (snd (upload_staging_to_prod no_constraint
         (snd (upload_staging_to_prod no_constraint duplicate_key_world))))) = 5"
proof -
  have f: "faults duplicate_key_world = []"
    by (simp add: duplicate_key_world_def empty_world_def)
  have once: "snd (upload_staging_to_prod no_constraint duplicate_key_world) =
      duplicate_key_world\<lparr>crimes_prod := crimes_prod duplicate_key_world
          @ map insert_select (crimes_staging duplicate_key_world),
        calls := calls duplicate_key_world @ [Merge]\<rparr>"
    by (rule upload_staging_to_prod_ok [where w = duplicate_key_world, OF f]) (simp add: no_constraint_def)
  have any: "crimes_prod (snd (upload_staging_to_prod table_ok duplicate_key_world)) \<noteq>
      [insert_select (example_row ''a1''), insert_select (example_row ''b2'')]" for table_ok
  proof (cases "table_ok (crimes_prod duplicate_key_world
      @ map insert_select (crimes_staging duplicate_key_world))")
    case True
    show ?thesis
      unfolding upload_staging_to_prod_ok [where w = duplicate_key_world and table_ok = table_ok, OF f True]
      by (simp add: duplicate_key_world_def empty_world_def)
  next
    case False
    show ?thesis
      unfolding upload_staging_to_prod_rejected [where w = duplicate_key_world and table_ok = table_ok, OF f False]
      by (simp add: duplicate_key_world_def empty_world_def)
  qed
  have twice: "length (crimes_prod (snd (upload_staging_to_prod no_constraint
         (snd (upload_staging_to_prod no_constraint duplicate_key_world))))) = 5"
    unfolding once
    by (subst upload_staging_to_prod_ok)
      (simp_all add: no_constraint_def duplicate_key_world_def empty_world_def)
  have first: "map crime_row.crime_id
      (crimes_prod (snd (upload_staging_to_prod no_constraint duplicate_key_world))) =
      [Some ''a1'', Some ''a1'', Some ''b2'']"
    unfolding once
    by (simp add: duplicate_key_world_def empty_world_def insert_select_def example_row_def)
  from first any twice show ?thesis by blast
qed

section \<open>Properties of the proximity query service\<close>

lemma status_code_get_crimes:
  "status_code (get_crimes st_dwithin str_of db lon lat radius) = 200
   \<or> status_code (get_crimes st_dwithin str_of db lon lat radius) = 500"
  by (simp add: get_crimes_def status_code_def split: sum.splits)

text \<open>
  Claim C5, evaluated on the code. A query against a working backend whose production
  table holds no matching record (here: an empty table) raises \<open>HTTPException(404)\<close>
  inside the \<open>try\<close> block; the function's own \<open>except Exception\<close> clause catches it and
  raises \<open>HTTPException(500)\<close>. The caller sees status 500, the status of a backend
  fault; no input at all makes the service answer 404.
\<close>

theorem empty_result_is_answered_with_500:
  "get_crimes st_dwithin str_of (working_backend []) lon lat radius =
     Inl (HTTPException 500 (str_of (HTTPException 404 ''No crimes found in the given area.'')))
   \<and> status_code (get_crimes st_dwithin str_of (working_backend []) lon lat radius) = 500
   \<and> status_code (get_crimes st_dwithin str_of
        \<lparr> connects = True, executes = False, prod_table = [] \<rparr> lon lat radius) = 500
   \<and> status_code (get_crimes st_dwithin str_of db lon lat radius) \<noteq> 404"
proof -
  have "status_code (get_crimes st_dwithin str_of db lon lat radius) \<noteq> 404"
    using status_code_get_crimes [of st_dwithin str_of db lon lat radius] by auto
  then show ?thesis
    by (simp add: get_crimes_def get_crimes_try_def working_backend_def status_code_def)
qed

section \<open>Properties of the BigQuery merge\<close>

lemma those_map_Some:
  "those (map f xs) = Some ys \<Longrightarrow> list_all2 (\<lambda>x y. f x = Some y) xs ys"
  by (induction xs arbitrary: ys) (auto split: option.splits)

lemma merge_select_fields:
  assumes "merge_select parse_date st_geogpoint s = Some r"
  shows "crime_row.crime_id r = staging_row.crime_id s"
    and "crime_row.longitude r = staging_row.longitude s"
    and "natural_key r = staged_key parse_date s"
  using assms
  by (auto simp: merge_select_def sql_apply_def natural_key_def staged_key_def
      split: option.splits)

lemma load_staging_to_production_Inr:
  assumes "load_staging_to_production parse_date st_geogpoint schema_ok w = (Inr v, w')"
  obtains stage where
    "list_all2 (\<lambda>s r. merge_select parse_date st_geogpoint s = Some r)
       (filter merge_where (staging_table w)) stage"
    "production_table w' = production_table w
       @ filter (\<lambda>s. \<not> list_ex (\<lambda>p. merge_on p s) (production_table w)) stage"
    "v = PyNone"
    "bq_log w' = bq_log w @ [INFO ''Starting query job to load data from staging to production...'',
       INFO ''Data successfully loaded into production table.'']"
  using assms
  by (auto simp: load_staging_to_production_def Let_def dest!: those_map_Some
      split: if_splits option.splits)

lemma merge_select_month:
  "merge_select parse_date st_geogpoint s = Some r \<Longrightarrow> month s \<noteq> None \<Longrightarrow> month_year r \<noteq> None"
  by (auto simp: merge_select_def sql_apply_def split: option.splits dest: sym)

lemma list_all2_select_set:
  "list_all2 (\<lambda>s r. f s = Some r) xs ys \<Longrightarrow> r \<in> set ys \<Longrightarrow> \<exists>s\<in>set xs. f s = Some r"
  by (induction rule: list_all2_induct) auto

lemma list_all2_select_keys:
  "list_all2 (\<lambda>s r. merge_select parse_date st_geogpoint s = Some r) xs ys \<Longrightarrow>
   map natural_key ys = map (staged_key parse_date) xs"
  by (induction rule: list_all2_induct) (auto simp: merge_select_fields(3))

lemma merge_on_same_key:
  "natural_key p = natural_key r \<Longrightarrow> crime_row.crime_id r \<noteq> None \<Longrightarrow> month_year r \<noteq> None \<Longrightarrow>
   merge_on p r"
  by (auto simp: natural_key_def merge_on_def sql_eq_def split: option.splits)

lemma load_staging_to_production_accepted:
  assumes "load_staging_to_production parse_date st_geogpoint schema_ok w = (Inr v, w')"
  obtains new where "production_table w' = production_table w @ new" "list_all schema_ok new"
  using assms
  by (auto simp: load_staging_to_production_def Let_def split: if_splits option.splits)

lemma load_staging_to_production_Inl:
  "fst (load_staging_to_production parse_date st_geogpoint schema_ok w) = Inl e \<Longrightarrow>
   production_table (snd (load_staging_to_production parse_date st_geogpoint schema_ok w)) =
     production_table w"
  by (auto simp: load_staging_to_production_def Let_def split: if_splits option.splits)

lemma load_staging_to_production_keeps:
  assumes ok: "load_staging_to_production parse_date st_geogpoint schema_ok w = (Inr v, w')"
  shows "list_all filtered_record (production_table w) \<Longrightarrow>
           list_all filtered_record (production_table w')"
    and "list_all valid_record (production_table w) \<Longrightarrow> requires_latitude schema_ok \<Longrightarrow>
           list_all valid_record (production_table w')"
    and "distinct (map natural_key (production_table w)) \<Longrightarrow>
         distinct (map (staged_key parse_date) (filter merge_where (staging_table w))) \<Longrightarrow>
         list_all (\<lambda>s. month s \<noteq> None) (filter merge_where (staging_table w)) \<Longrightarrow>
           distinct (map natural_key (production_table w'))"
proof -
  define src where "src = filter merge_where (staging_table w)"
  from ok obtain stage where
    st: "list_all2 (\<lambda>s r. merge_select parse_date st_geogpoint s = Some r) src stage" and
    pt: "production_table w' = production_table w
       @ filter (\<lambda>s. \<not> list_ex (\<lambda>p. merge_on p s) (production_table w)) stage"
    unfolding src_def by (rule load_staging_to_production_Inr)
  define new where "new = filter (\<lambda>s. \<not> list_ex (\<lambda>p. merge_on p s) (production_table w)) stage"
  have origin: "\<exists>s\<in>set src. merge_select parse_date st_geogpoint s = Some r" if "r \<in> set stage" for r
    using list_all2_select_set [OF st that] .
  have tested: "filtered_record r" if "r \<in> set stage" for r
  proof -
    from origin [OF that] obtain s where s: "s \<in> set src"
      and r: "merge_select parse_date st_geogpoint s = Some r" by blast
    from s have "merge_where s" by (simp add: src_def)
    with merge_select_fields(1,2) [OF r] show ?thesis
      by (simp add: filtered_record_def merge_where_def)
  qed
  show "list_all filtered_record (production_table w')"
    if "list_all filtered_record (production_table w)"
    using that tested unfolding pt by (auto simp: list_all_iff)
  show "list_all valid_record (production_table w')"
    if inv: "list_all valid_record (production_table w)" and lat: "requires_latitude schema_ok"
  proof -
    from ok obtain accepted where
      pa: "production_table w' = production_table w @ accepted" and
      acc: "list_all schema_ok accepted"
      by (rule load_staging_to_production_accepted)
    from pa pt have eq: "accepted = new" by (simp add: new_def)
    have "valid_record r" if "r \<in> set new" for r
    proof -
      from that have "r \<in> set stage" by (simp add: new_def)
      then have "filtered_record r" by (rule tested)
      moreover from that acc eq have "schema_ok r" by (simp add: list_all_iff)
      with lat have "crime_row.latitude r \<noteq> None" by (simp add: requires_latitude_def)
      ultimately show ?thesis by (simp add: valid_record_def filtered_record_def)
    qed
    with inv show ?thesis unfolding pt new_def [symmetric] by (auto simp: list_all_iff)
  qed
  show "distinct (map natural_key (production_table w'))"
    if d1: "distinct (map natural_key (production_table w))"
      and d2: "distinct (map (staged_key parse_date) (filter merge_where (staging_table w)))"
      and months: "list_all (\<lambda>s. month s \<noteq> None) (filter merge_where (staging_table w))"
  proof -
    have "distinct (map natural_key stage)"
      using d2 unfolding src_def [symmetric] by (simp add: list_all2_select_keys [OF st])
    then have dn: "distinct (map natural_key new)"
      unfolding new_def by (rule distinct_map_filter)
    have apart: "natural_key p \<noteq> natural_key r"
      if p: "p \<in> set (production_table w)" and r: "r \<in> set new" for p r
    proof
      assume same: "natural_key p = natural_key r"
      from r have rs: "r \<in> set stage"
        and unmatched: "\<not> list_ex (\<lambda>p. merge_on p r) (production_table w)"
        by (simp_all add: new_def)
      from origin [OF rs] obtain s where s: "s \<in> set src"
        and sel: "merge_select parse_date st_geogpoint s = Some r" by blast
      from months s have "month s \<noteq> None" by (simp add: list_all_iff src_def)
      then have "month_year r \<noteq> None" by (rule merge_select_month [OF sel])
      moreover from tested [OF rs] have "crime_row.crime_id r \<noteq> None"
        by (simp add: filtered_record_def)
      ultimately have "merge_on p r" using same by (intro merge_on_same_key)
      with p unmatched show False by (auto simp: list_ex_iff)
    qed
    from apart have "natural_key ` set (production_table w) \<inter> natural_key ` set new = {}"
      by blast
    with d1 dn show ?thesis
      unfolding pt new_def [symmetric] by simp
  qed
qed

lemma crimes_prod_upload_staging_to_prod:
  "crimes_prod (snd (upload_staging_to_prod table_ok w)) = crimes_prod w
   \<or> table_ok (crimes_prod (snd (upload_staging_to_prod table_ok w)))"
  by (auto simp: upload_staging_to_prod_def upload_staging_to_prod_try_def connect_def
      log_error_def Let_def split: list.splits bool.splits)

lemma distinct_map_pair:
  "distinct (map f xs) \<Longrightarrow> distinct (map (\<lambda>x. (f x, g x)) xs)"
  by (induction xs) auto

lemma create_table_query_enforces_invariant:
  "enforces_invariant (create_table_query :: ('d, 'g) prod_row list \<Rightarrow> bool)"
proof -
  have "production_invariant table" if t: "create_table_query table" for table :: "('d, 'g) prod_row list"
  proof -
    from t have "distinct (map crime_row.crime_id table)" by (simp add: create_table_query_def)
    then have "distinct (map (\<lambda>r. (crime_row.crime_id r, month_year r)) table)"
      by (rule distinct_map_pair)
    moreover have "natural_key = (\<lambda>r :: ('d, 'g) prod_row. (crime_row.crime_id r, month_year r))"
      by (simp add: natural_key_def fun_eq_iff)
    moreover from t have "list_all valid_record table"
      by (auto simp: create_table_query_def not_null_columns_def valid_record_def list_all_iff)
    ultimately show ?thesis by (simp add: production_invariant_def)
  qed
  then show ?thesis by (simp add: enforces_invariant_def)
qed

lemma not_null_columns_requires_latitude: "requires_latitude not_null_columns"
  by (simp add: requires_latitude_def not_null_columns_def)

text \<open>
  Claim C3 fails as stated. Two staging rows with the same key \<open>(a1, 2023-07)\<close> and
  different crime types, merged by the BigQuery merge into an empty production table whose
  schema requires every column that the declaration of the production table requires: no
  production row matches either, so both are inserted and the key is stored twice. With a
  production schema that leaves \<open>latitude\<close> nullable, a staging row without latitude
  passes the \<open>WHERE\<close> clause (which tests \<open>longitude\<close> and \<open>crime_id\<close> only) and is
  inserted. And the PostgreSQL merge into a table without constraints stores the key
  \<open>a1\<close>, which production holds already, a second time.
\<close>

theorem merges_break_the_invariant_that_nothing_enforces:
  "production_invariant ([] :: (string, real \<times> real) prod_row list)
   \<and> fst (load_staging_to_production keep_text lon_lat not_null_columns
        (bq_world_of [staged ''a1'' ''Burglary'' (Some 53.8), staged ''a1'' ''Robbery'' (Some 53.8)])) = Inr PyNone
   \<and> \<not> production_invariant (production_table (snd (load_staging_to_production keep_text lon_lat not_null_columns
        (bq_world_of [staged ''a1'' ''Burglary'' (Some 53.8), staged ''a1'' ''Robbery'' (Some 53.8)]))))
   \<and> fst (load_staging_to_production keep_text lon_lat all_nullable
        (bq_world_of [staged ''a1'' ''Burglary'' None])) = Inr PyNone
   \<and> \<not> production_invariant (production_table (snd (load_staging_to_production keep_text lon_lat all_nullable
        (bq_world_of [staged ''a1'' ''Burglary'' None]))))
   \<and> production_invariant (crimes_prod duplicate_key_world)
   \<and> \<not> production_invariant (crimes_prod (snd (upload_staging_to_prod no_constraint duplicate_key_world)))"
proof -
  have bq: "production_invariant ([] :: (string, real \<times> real) prod_row list)
   \<and> fst (load_staging_to_production keep_text lon_lat not_null_columns
        (bq_world_of [staged ''a1'' ''Burglary'' (Some 53.8), staged ''a1'' ''Robbery'' (Some 53.8)])) = Inr PyNone
   \<and> \<not> production_invariant (production_table (snd (load_staging_to_production keep_text lon_lat not_null_columns
        (bq_world_of [staged ''a1'' ''Burglary'' (Some 53.8), staged ''a1'' ''Robbery'' (Some 53.8)]))))
   \<and> fst (load_staging_to_production keep_text lon_lat all_nullable
        (bq_world_of [staged ''a1'' ''Burglary'' None])) = Inr PyNone
   \<and> \<not> production_invariant (production_table (snd (load_staging_to_production keep_text lon_lat all_nullable
        (bq_world_of [staged ''a1'' ''Burglary'' None]))))"
    by (simp add: production_invariant_def load_staging_to_production_def bq_world_of_def staged_def
       merge_where_def merge_select_def sql_apply_def sql_apply2_def keep_text_def lon_lat_def
       all_nullable_def not_null_columns_def natural_key_def valid_record_def)
  have pg1: "production_invariant (crimes_prod duplicate_key_world)"
    by (simp add: production_invariant_def duplicate_key_world_def empty_world_def valid_record_def
        insert_select_def example_row_def)
  have pg2: "\<not> production_invariant (crimes_prod (snd (upload_staging_to_prod no_constraint duplicate_key_world)))"
    by (simp add: production_invariant_def duplicate_key_world_def empty_world_def
        upload_staging_to_prod_def upload_staging_to_prod_try_def connect_def no_constraint_def
        natural_key_def insert_select_def example_row_def)
  from bq pg1 pg2 show ?thesis by (simp only: simp_thms)
qed

text \<open>
  Claim C3, amended. After every merge, whether it succeeds or raises, the production
  store keeps each part of the validity invariant that it satisfied before and that the
  merge statement tests or the declaration of the production table enforces.
  For the BigQuery merge: every record has \<open>crime_id\<close> and \<open>longitude\<close>, which the
  \<open>WHERE\<close> clause tests; every record has \<open>latitude\<close> as well when the production
  schema requires it; and the pairs \<open>(crime_id, month_year)\<close> are pairwise distinct when
  the staging rows that pass the \<open>WHERE\<close> clause have a month and pairwise distinct
  keys. Under these conditions together the whole invariant holds after the merge.
  For the PostgreSQL merge, whose statement tests nothing: the whole invariant holds after
  the merge when the constraints of the production table enforce it.
\<close>

theorem merges_keep_the_invariant_that_is_enforced:
  "(list_all filtered_record (production_table w) \<longrightarrow>
      list_all filtered_record
        (production_table (snd (load_staging_to_production parse_date st_geogpoint schema_ok w))))
   \<and> (list_all valid_record (production_table w) \<and> requires_latitude schema_ok \<longrightarrow>
      list_all valid_record
        (production_table (snd (load_staging_to_production parse_date st_geogpoint schema_ok w))))
   \<and> (distinct (map natural_key (production_table w))
       \<and> distinct (map (staged_key parse_date) (filter merge_where (staging_table w)))
       \<and> list_all (\<lambda>s. month s \<noteq> None) (filter merge_where (staging_table w)) \<longrightarrow>
      distinct (map natural_key
        (production_table (snd (load_staging_to_production parse_date st_geogpoint schema_ok w)))))
   \<and> (production_invariant (production_table w) \<and> requires_latitude schema_ok
       \<and> distinct (map (staged_key parse_date) (filter merge_where (staging_table w)))
       \<and> list_all (\<lambda>s. month s \<noteq> None) (filter merge_where (staging_table w)) \<longrightarrow>
      production_invariant
        (production_table (snd (load_staging_to_production parse_date st_geogpoint schema_ok w))))
   \<and> (production_invariant (crimes_prod pw) \<and> enforces_invariant table_ok \<longrightarrow>
      production_invariant (crimes_prod (snd (upload_staging_to_prod table_ok pw))))"
proof -
  define run where "run = load_staging_to_production parse_date st_geogpoint schema_ok w"
  have bq: "(list_all filtered_record (production_table w) \<longrightarrow>
        list_all filtered_record (production_table (snd run)))
     \<and> (list_all valid_record (production_table w) \<and> requires_latitude schema_ok \<longrightarrow>
        list_all valid_record (production_table (snd run)))
     \<and> (distinct (map natural_key (production_table w))
         \<and> distinct (map (staged_key parse_date) (filter merge_where (staging_table w)))
         \<and> list_all (\<lambda>s. month s \<noteq> None) (filter merge_where (staging_table w)) \<longrightarrow>
        distinct (map natural_key (production_table (snd run))))"
  proof (cases "fst run")
    case (Inl e)
    then have "production_table (snd run) = production_table w"
      unfolding run_def by (rule load_staging_to_production_Inl)
    then show ?thesis by simp
  next
    case (Inr v)
    then have ok: "load_staging_to_production parse_date st_geogpoint schema_ok w = (Inr v, snd run)"
      unfolding run_def by (simp add: prod_eq_iff)
    from load_staging_to_production_keeps [OF ok] show ?thesis by blast
  qed
  from crimes_prod_upload_staging_to_prod [of table_ok pw]
  have pg: "production_invariant (crimes_prod pw) \<and> enforces_invariant table_ok \<longrightarrow>
      production_invariant (crimes_prod (snd (upload_staging_to_prod table_ok pw)))"
    by (auto simp: enforces_invariant_def)
  from bq pg show ?thesis
    unfolding run_def production_invariant_def by blast
qed

theorem merges_keep_the_invariant_that_is_enforced_witness:
  "production_invariant (production_table bq_example_world)
   \<and> requires_latitude (not_null_columns :: (string, real \<times> real) prod_row \<Rightarrow> bool)
   \<and> distinct (map (staged_key keep_text) (filter merge_where (staging_table bq_example_world)))
   \<and> list_all (\<lambda>s. month s \<noteq> None) (filter merge_where (staging_table bq_example_world))
   \<and> fst (load_staging_to_production keep_text lon_lat not_null_columns bq_example_world) = Inr PyNone
   \<and> map crime_row.crime_id
       (production_table (snd (load_staging_to_production keep_text lon_lat not_null_columns bq_example_world)))
      = [Some ''a1'', Some ''b2'']
   \<and> production_invariant
       (production_table (snd (load_staging_to_production keep_text lon_lat not_null_columns bq_example_world)))
   \<and> production_invariant (crimes_prod one_staged_world)
   \<and> enforces_invariant (create_table_query :: (string, geometry) prod_row list \<Rightarrow> bool)
   \<and> crimes_prod (snd (upload_staging_to_prod create_table_query one_staged_world)) =
       [insert_select (example_row ''a1'')]
   \<and> production_invariant (crimes_prod (snd (upload_staging_to_prod create_table_query one_staged_world)))"
proof -
  have h1: "production_invariant (production_table bq_example_world)"
    by (simp add: production_invariant_def bq_example_world_def valid_record_def merge_select_def
        staged_def sql_apply_def sql_apply2_def keep_text_def lon_lat_def)
  have h2: "requires_latitude (not_null_columns :: (string, real \<times> real) prod_row \<Rightarrow> bool)"
    by (rule not_null_columns_requires_latitude)
  have h3: "distinct (map (staged_key keep_text) (filter merge_where (staging_table bq_example_world)))"
    by (simp add: bq_example_world_def staged_def merge_where_def staged_key_def keep_text_def)
  have h4: "list_all (\<lambda>s. month s \<noteq> None) (filter merge_where (staging_table bq_example_world))"
    by (simp add: bq_example_world_def staged_def merge_where_def)
  have ret: "fst (load_staging_to_production keep_text lon_lat not_null_columns bq_example_world) = Inr PyNone"
    by (simp add: load_staging_to_production_def bq_example_world_def staged_def
        merge_where_def merge_select_def sql_apply_def sql_apply2_def keep_text_def lon_lat_def
        not_null_columns_def merge_on_def sql_eq_def)
  have ids: "map crime_row.crime_id
       (production_table (snd (load_staging_to_production keep_text lon_lat not_null_columns bq_example_world)))
      = [Some ''a1'', Some ''b2'']"
    by (simp add: load_staging_to_production_def bq_example_world_def staged_def
        merge_where_def merge_select_def sql_apply_def sql_apply2_def keep_text_def lon_lat_def
        not_null_columns_def merge_on_def sql_eq_def)
  have g1: "production_invariant (crimes_prod one_staged_world)"
    by (simp add: production_invariant_def one_staged_world_def empty_world_def)
  have g2: "enforces_invariant (create_table_query :: (string, geometry) prod_row list \<Rightarrow> bool)"
    by (rule create_table_query_enforces_invariant)
  have g3: "crimes_prod (snd (upload_staging_to_prod create_table_query one_staged_world)) =
       [insert_select (example_row ''a1'')]"
    by (simp add: upload_staging_to_prod_def upload_staging_to_prod_try_def connect_def
        one_staged_world_def empty_world_def create_table_query_def not_null_columns_def
        insert_select_def example_row_def ST_MakePoint_def ST_SetSRID_def)
  from merges_keep_the_invariant_that_is_enforced
    [of bq_example_world keep_text lon_lat not_null_columns one_staged_world create_table_query]
    h1 h2 h3 h4 g1 g2
  have "production_invariant
       (production_table (snd (load_staging_to_production keep_text lon_lat not_null_columns bq_example_world)))"
    and "production_invariant (crimes_prod (snd (upload_staging_to_prod create_table_query one_staged_world)))"
    by blast+
  with h1 h2 h3 h4 ret ids g1 g2 g3 show ?thesis by (simp only: simp_thms)
qed

text \<open>
  The BigQuery merge is insert-if-absent: merging the same staging content a second time
  inserts nothing, provided the rows that pass the \<open>WHERE\<close> clause have a month (a row
  with a \<open>NULL\<close> month matches no production row, not even its own copy).
\<close>

lemma load_staging_to_production_twice:
  assumes ok: "load_staging_to_production parse_date st_geogpoint schema_ok w = (Inr v, w')"
    and months: "list_all (\<lambda>s. month s \<noteq> None) (filter merge_where (staging_table w))"
  shows "fst (load_staging_to_production parse_date st_geogpoint schema_ok w') = Inr PyNone"
    and "production_table (snd (load_staging_to_production parse_date st_geogpoint schema_ok w'))
           = production_table w'"
proof -
  define src where "src = filter merge_where (staging_table w)"
  from ok obtain stage where
    th: "those (map (merge_select parse_date st_geogpoint) src) = Some stage" and
    pt: "production_table w' = production_table w
       @ filter (\<lambda>s. \<not> list_ex (\<lambda>p. merge_on p s) (production_table w)) stage" and
    same: "staging_table w' = staging_table w" "job_fails w' = False"
    unfolding src_def
    by (auto simp: load_staging_to_production_def Let_def split: if_splits option.splits)
  have st: "list_all2 (\<lambda>s r. merge_select parse_date st_geogpoint s = Some r) src stage"
    using th by (rule those_map_Some)
  have matched: "list_ex (\<lambda>p. merge_on p r) (production_table w')" if r: "r \<in> set stage" for r
  proof (cases "list_ex (\<lambda>p. merge_on p r) (production_table w)")
    case True
    then show ?thesis unfolding pt by (auto simp: list_ex_iff)
  next
    case False
    from list_all2_select_set [OF st r] obtain s where s: "s \<in> set src"
      and sel: "merge_select parse_date st_geogpoint s = Some r" by blast
    from s months have "month s \<noteq> None" by (simp add: src_def list_all_iff)
    then have m: "month_year r \<noteq> None" by (rule merge_select_month [OF sel])
    from s have "merge_where s" by (simp add: src_def)
    with merge_select_fields(1) [OF sel] have c: "crime_row.crime_id r \<noteq> None"
      by (simp add: merge_where_def)
    have "merge_on r r" using m c by (intro merge_on_same_key) simp_all
    with False r show ?thesis unfolding pt by (auto simp: list_ex_iff)
  qed
  then have none: "filter (\<lambda>s. \<not> list_ex (\<lambda>p. merge_on p s) (production_table w')) stage = []"
    by (simp add: filter_empty_conv)
  show "fst (load_staging_to_production parse_date st_geogpoint schema_ok w') = Inr PyNone"
    using th none same by (simp add: load_staging_to_production_def Let_def src_def)
  show "production_table (snd (load_staging_to_production parse_date st_geogpoint schema_ok w'))
           = production_table w'"
    using th none same by (simp add: load_staging_to_production_def Let_def src_def)
qed

section \<open>What the merge returns\<close>

text \<open>
  Claim C9 fails as stated. One staged row is merged into an empty production table, so
  one row is inserted; the PostgreSQL merge returns \<open>None\<close> and logs nothing, the
  BigQuery merge returns \<open>None\<close> and logs its two fixed messages. No count is returned
  or logged.
\<close>

theorem merge_returns_no_count:
  "fst (upload_staging_to_prod no_constraint one_staged_world) \<noteq> PyInt 1
   \<and> length (crimes_prod (snd (upload_staging_to_prod no_constraint one_staged_world))) = 1
   \<and> log_records (snd (upload_staging_to_prod no_constraint one_staged_world)) = []
   \<and> fst (load_staging_to_production keep_text lon_lat all_nullable
        (bq_world_of [staged ''a1'' ''Burglary'' (Some 53.8)])) \<noteq> Inr (PyInt 1)
   \<and> length (production_table (snd (load_staging_to_production keep_text lon_lat all_nullable
        (bq_world_of [staged ''a1'' ''Burglary'' (Some 53.8)])))) = 1
   \<and> bq_log (snd (load_staging_to_production keep_text lon_lat all_nullable
        (bq_world_of [staged ''a1'' ''Burglary'' (Some 53.8)]))) =
       [INFO ''Starting query job to load data from staging to production...'',
        INFO ''Data successfully loaded into production table.'']"
  by (simp add: upload_staging_to_prod_def upload_staging_to_prod_try_def connect_def
      one_staged_world_def empty_world_def no_constraint_def
      load_staging_to_production_def bq_world_of_def staged_def merge_where_def
      merge_select_def sql_apply_def sql_apply2_def keep_text_def lon_lat_def all_nullable_def)

text \<open>
  Claim C9, amended. Every call of the PostgreSQL merge returns \<open>None\<close>, and a
  successful one leaves the log as it was; every successful call of the BigQuery merge
  returns \<open>None\<close> and adds its two fixed messages to the log. The loop of \<open>main\<close> drops
  the value the merge returns (\<open>process_files\<close> keeps the state only).
\<close>

theorem merge_returns_none:
  "fst (upload_staging_to_prod table_ok w) = PyNone
   \<and> (fst (upload_staging_to_prod_try table_ok (w\<lparr>calls := calls w @ [Merge]\<rparr>)) = None
        \<longrightarrow> log_records (snd (upload_staging_to_prod table_ok w)) = log_records w)
   \<and> (fst (load_staging_to_production parse_date st_geogpoint schema_ok bw) = Inr v
        \<longrightarrow> v = PyNone
            \<and> bq_log (snd (load_staging_to_production parse_date st_geogpoint schema_ok bw)) =
                bq_log bw @ [INFO ''Starting query job to load data from staging to production...'',
                  INFO ''Data successfully loaded into production table.''])"
proof -
  have a: "fst (upload_staging_to_prod table_ok w) = PyNone"
    by (simp add: upload_staging_to_prod_def split: prod.splits option.splits)
  have b: "log_records (snd (upload_staging_to_prod table_ok w)) = log_records w"
    if "fst (upload_staging_to_prod_try table_ok (w\<lparr>calls := calls w @ [Merge]\<rparr>)) = None"
    using that
    by (auto simp: upload_staging_to_prod_def upload_staging_to_prod_try_def connect_def Let_def
        split: list.splits bool.splits if_splits)
  have c: "v = PyNone
     \<and> bq_log (snd (load_staging_to_production parse_date st_geogpoint schema_ok bw)) =
         bq_log bw @ [INFO ''Starting query job to load data from staging to production...'',
           INFO ''Data successfully loaded into production table.'']"
    if "fst (load_staging_to_production parse_date st_geogpoint schema_ok bw) = Inr v"
  proof -
    from that have "load_staging_to_production parse_date st_geogpoint schema_ok bw =
        (Inr v, snd (load_staging_to_production parse_date st_geogpoint schema_ok bw))"
      by (simp add: prod_eq_iff)
    then show ?thesis
      by (rule load_staging_to_production_Inr) simp
  qed
  from a b c show ?thesis by blast
qed

theorem merge_returns_none_witness:
  "fst (upload_staging_to_prod no_constraint one_staged_world) = PyNone
   \<and> fst (upload_staging_to_prod_try no_constraint
        (one_staged_world\<lparr>calls := calls one_staged_world @ [Merge]\<rparr>)) = None
   \<and> log_records (snd (upload_staging_to_prod no_constraint one_staged_world)) = []
   \<and> fst (load_staging_to_production keep_text lon_lat all_nullable
        (bq_world_of [staged ''a1'' ''Burglary'' (Some 53.8)])) = Inr PyNone
   \<and> bq_log (snd (load_staging_to_production keep_text lon_lat all_nullable
        (bq_world_of [staged ''a1'' ''Burglary'' (Some 53.8)]))) =
       [INFO ''Starting query job to load data from staging to production...'',
        INFO ''Data successfully loaded into production table.'']"
proof -
  have h1: "fst (upload_staging_to_prod_try no_constraint
        (one_staged_world\<lparr>calls := calls one_staged_world @ [Merge]\<rparr>)) = None"
    by (simp add: upload_staging_to_prod_try_def connect_def one_staged_world_def empty_world_def
        no_constraint_def)
  have h2: "fst (load_staging_to_production keep_text lon_lat all_nullable
        (bq_world_of [staged ''a1'' ''Burglary'' (Some 53.8)])) = Inr PyNone"
    by (simp add: load_staging_to_production_def bq_world_of_def staged_def merge_where_def
        merge_select_def sql_apply_def sql_apply2_def keep_text_def lon_lat_def all_nullable_def)
  have e: "log_records one_staged_world = []" "bq_log (bq_world_of rows) = []" for rows
    by (simp_all add: one_staged_world_def empty_world_def bq_world_of_def)
  from h1 h2 merge_returns_none [of no_constraint one_staged_world keep_text lon_lat all_nullable
      "bq_world_of [staged ''a1'' ''Burglary'' (Some 53.8)]" PyNone]
  show ?thesis by (simp add: e)
qed

section \<open>Properties of the record normalizer\<close>

lemma normalise_raw_columns: "map normalise_column raw_columns = [''crime_id'', ''month'', ''reported_by'', ''falls_within'', ''longitude'',
                  ''latitude'', ''location'', ''lsoa_code'', ''lsoa_name'', ''crime_type'']"
  by (simp add: raw_columns_def normalise_column_def lower_char_def)

lemma raw_columns_not_empty: "raw_columns \<noteq> []" by (simp add: raw_columns_def)

lemma format_dataframe_raw_table: "fst (format_dataframe raw_table) = Inr \<lparr> columns = RENAMED_COLUMNS, data = [[Some ''a1'', Some ''2023-07'', Some ''Lancashire Constabulary'', Some ''-2.5'', Some ''53.8'', None, Some ''Burglary'', Some ''On or near High Street'']] \<rparr>"
  unfolding format_dataframe_def
  using raw_columns_not_empty by (simp add: raw_table_def normalise_raw_columns df_empty_def raw_row_def SELECT_COLS_def RENAMED_COLUMNS_def getitem_def
     positions_def cell_def drop_duplicates_def Let_def)

lemma set_drop_duplicates_seen:
  "set (drop_duplicates_seen seen rs) = set rs - set seen"
  by (induction rs arbitrary: seen) auto

lemma distinct_drop_duplicates_seen:
  "distinct (drop_duplicates_seen seen rs)"
  by (induction rs arbitrary: seen) (auto simp: set_drop_duplicates_seen)

lemma positions_snoc:
  "positions (xs @ [y]) x = positions xs x @ (if y = x then [length xs] else [])"
proof -
  have "filter (\<lambda>i. (xs @ [y]) ! i = x) [0..<length xs] = filter (\<lambda>i. xs ! i = x) [0..<length xs]"
    by (rule filter_cong) (simp_all add: nth_append)
  then show ?thesis by (simp add: positions_def)
qed

lemma length_positions: "length (positions xs x) = count_list xs x"
  by (induction xs rule: rev_induct) (simp add: positions_def, simp add: positions_snoc)

lemma format_dataframe_input:
  "data (snd (format_dataframe df)) = data df"
  "columns (snd (format_dataframe df)) =
     (if df_empty df then columns df else map normalise_column (columns df))"
  by (simp_all add: format_dataframe_def Let_def)

lemma format_dataframe_Inr:
  assumes "fst (format_dataframe df) = Inr out"
  shows "out = \<lparr> columns = RENAMED_COLUMNS,
           data = drop_duplicates_seen []
             (filter (\<lambda>r. cell RENAMED_COLUMNS ''crime_id'' r \<noteq> None)
               (filter (\<lambda>r. cell RENAMED_COLUMNS ''longitude'' r \<noteq> None
                    \<and> cell RENAMED_COLUMNS ''latitude'' r \<noteq> None) (selected_rows df))) \<rparr>"
  using assms
  by (auto simp: format_dataframe_def Let_def drop_duplicates_def selected_rows_def getitem_def
      split: if_splits)

lemma format_dataframe_succeeds:
  assumes "\<not> df_empty df"
    and "list_all (\<lambda>c. count_list (map normalise_column (columns df)) c = 1) SELECT_COLS"
  shows "\<exists>out. fst (format_dataframe df) = Inr out"
proof -
  have "c \<in> set (map normalise_column (columns df))" if "c \<in> set SELECT_COLS" for c
  proof -
    from assms(2) that have "count_list (map normalise_column (columns df)) c = 1"
      by (simp add: list_all_iff)
    then show ?thesis by (metis count_list_0_iff zero_neq_one)
  qed
  then have present:
    "filter (\<lambda>col. col \<notin> set (map normalise_column (columns df))) SELECT_COLS = []"
    by (simp add: filter_empty_conv)
  have "length (concat (map (positions (map normalise_column (columns df))) SELECT_COLS)) = 8"
    using assms(2) by (simp add: SELECT_COLS_def length_positions)
  then have "length (columns (getitem (df\<lparr>columns := map normalise_column (columns df)\<rparr>) SELECT_COLS))
      = length RENAMED_COLUMNS"
    by (simp add: getitem_def RENAMED_COLUMNS_def Let_def)
  with assms(1) present show ?thesis
    by (simp add: format_dataframe_def Let_def)
qed

lemma format_dataframe_Inl:
  assumes "\<not> df_empty df" "set SELECT_COLS \<subseteq> set (map normalise_column (columns df))"
    and "fst (format_dataframe df) = Inl e"
  shows "e = ValueError ''Length mismatch''"
proof -
  have "filter (\<lambda>col. col \<notin> set (map normalise_column (columns df))) SELECT_COLS = []"
    using assms(2) by (auto simp: filter_empty_conv)
  with assms(1,3) show ?thesis
    by (simp add: format_dataframe_def Let_def split: if_splits)
qed

lemma format_dataframe_raises:
  assumes "\<not> df_empty df" "set SELECT_COLS \<subseteq> set (map normalise_column (columns df))"
    and "\<not> list_all (\<lambda>c. count_list (map normalise_column (columns df)) c = 1) SELECT_COLS"
  shows "fst (format_dataframe df) = Inl (ValueError ''Length mismatch'')"
proof -
  define cols where "cols = map normalise_column (columns df)"
  have present: "filter (\<lambda>col. col \<notin> set cols) SELECT_COLS = []"
    using assms(2) by (auto simp: filter_empty_conv cols_def)
  have pos: "1 \<le> count_list cols c" if "c \<in> set SELECT_COLS" for c
  proof -
    from that assms(2) have "c \<in> set cols" by (auto simp: cols_def)
    then have "count_list cols c \<noteq> 0" by (simp add: count_list_0_iff)
    then show ?thesis by simp
  qed
  have "length (concat (map (positions cols) SELECT_COLS)) \<noteq> 8"
    using assms(3) pos [of "''crime_id''"] pos [of "''month''"] pos [of "''falls_within''"]
      pos [of "''longitude''"] pos [of "''latitude''"] pos [of "''lsoa_code''"]
      pos [of "''crime_type''"] pos [of "''location''"]
    unfolding cols_def [symmetric]
    by (simp add: SELECT_COLS_def length_positions) linarith
  then have "length (columns (getitem (df\<lparr>columns := cols\<rparr>) SELECT_COLS)) \<noteq> length RENAMED_COLUMNS"
    by (simp add: getitem_def RENAMED_COLUMNS_def Let_def)
  with assms(1) present show ?thesis
    unfolding cols_def by (simp add: format_dataframe_def Let_def)
qed

text \<open>
  Claim C8, amended. For every non-empty table that contains all required columns:
  whenever the normalizer returns a table, that table has the eight canonical columns, no
  row in it lacks \<open>longitude\<close>, \<open>latitude\<close> or \<open>crime_id\<close>, no row occurs twice, and
  its rows are exactly the input's rows (cut down to the required columns) that have all
  three fields. It returns a table, whatever values are missing, exactly when each
  required label occurs once among the normalised labels; when a required label occurs
  more than once it raises the \<open>ValueError\<close> of a label assignment of the wrong length,
  and it raises nothing else.
\<close>

theorem normalizer_drops_incomplete_and_duplicate_rows:
  assumes "\<not> df_empty df"
    and "set SELECT_COLS \<subseteq> set (map normalise_column (columns df))"
  shows "(\<forall>out. fst (format_dataframe df) = Inr out \<longrightarrow>
            columns out = RENAMED_COLUMNS
            \<and> list_all required_present (data out)
            \<and> distinct (data out)
            \<and> set (data out) = {r \<in> set (selected_rows df). required_present r})
     \<and> (each_exactly_once df \<longrightarrow> (\<exists>out. fst (format_dataframe df) = Inr out))
     \<and> (\<not> each_exactly_once df \<longrightarrow>
          fst (format_dataframe df) = Inl (ValueError ''Length mismatch''))
     \<and> (\<forall>e. fst (format_dataframe df) = Inl e \<longrightarrow> e = ValueError ''Length mismatch'')"
proof -
  have a: "columns out = RENAMED_COLUMNS \<and> list_all required_present (data out)
      \<and> distinct (data out)
      \<and> set (data out) = {r \<in> set (selected_rows df). required_present r}"
    if "fst (format_dataframe df) = Inr out" for out
    unfolding format_dataframe_Inr [OF that]
    by (auto simp: set_drop_duplicates_seen distinct_drop_duplicates_seen list_all_iff
        required_present_def)
  from a format_dataframe_succeeds [OF assms(1)] format_dataframe_raises [OF assms(1,2)]
    format_dataframe_Inl [OF assms(1,2)]
  show ?thesis unfolding each_exactly_once_def by blast
qed

text \<open>
  Claim C7, amended. The normalizer never changes the rows of the table passed to it, but
  on a non-empty table it replaces the table's column labels by their normalised form
  (also when it then raises). The input is unchanged exactly when it is empty or its
  labels are already normalised.
\<close>

theorem normalizer_renames_the_columns_of_its_input:
  "data (snd (format_dataframe df)) = data df
   \<and> columns (snd (format_dataframe df)) =
       (if df_empty df then columns df else map normalise_column (columns df))
   \<and> (snd (format_dataframe df) = df) =
       (df_empty df \<or> map normalise_column (columns df) = columns df)"
proof -
  have "(snd (format_dataframe df) = df) =
      (columns (snd (format_dataframe df)) = columns df \<and> data (snd (format_dataframe df)) = data df)"
    by (cases df, cases "snd (format_dataframe df)") auto
  then show ?thesis by (auto simp: format_dataframe_input)
qed

text \<open>
  Claim C7 fails as stated. A table with the column labels of the source files
  (\<open>Crime ID\<close>, \<open>Falls within\<close>, ...) carries the labels \<open>crime_id\<close>,
  \<open>falls_within\<close>, ... after the call.
\<close>

theorem normalizer_changes_its_input:
  "columns raw_table = [''Crime ID'', ''Month'', ''Reported by'', ''Falls within'', ''Longitude'',
      ''Latitude'', ''Location'', ''LSOA code'', ''LSOA name'', ''Crime type'']
   \<and> columns (snd (format_dataframe raw_table)) =
      [''crime_id'', ''month'', ''reported_by'', ''falls_within'', ''longitude'',
       ''latitude'', ''location'', ''lsoa_code'', ''lsoa_name'', ''crime_type'']
   \<and> snd (format_dataframe raw_table) \<noteq> raw_table"
proof -
  have c: "columns raw_table = raw_columns" and n: "\<not> df_empty raw_table"
    by (simp_all add: raw_table_def df_empty_def raw_columns_def)
  have "columns (snd (format_dataframe raw_table)) \<noteq> columns raw_table"
    unfolding format_dataframe_input c using n by (simp add: normalise_raw_columns) (simp add: raw_columns_def)
  then have "snd (format_dataframe raw_table) \<noteq> raw_table" by auto
  then show ?thesis
    unfolding format_dataframe_input c using n by (simp add: normalise_raw_columns) (simp add: raw_columns_def)
qed

theorem normalizer_drops_incomplete_and_duplicate_rows_witness:
  "\<not> df_empty raw_table
   \<and> set SELECT_COLS \<subseteq> set (map normalise_column (columns raw_table))
   \<and> each_exactly_once raw_table
   \<and> fst (format_dataframe raw_table) = Inr \<lparr> columns = RENAMED_COLUMNS,
        data = [[Some ''a1'', Some ''2023-07'', Some ''Lancashire Constabulary'', Some ''-2.5'',
                 Some ''53.8'', None, Some ''Burglary'', Some ''On or near High Street'']] \<rparr>
   \<and> list_all required_present (data (projr (fst (format_dataframe raw_table))))
   \<and> distinct (data (projr (fst (format_dataframe raw_table))))
   \<and> \<not> df_empty repeated_label_table
   \<and> set SELECT_COLS \<subseteq> set (map normalise_column (columns repeated_label_table))
   \<and> \<not> each_exactly_once repeated_label_table
   \<and> fst (format_dataframe repeated_label_table) = Inl (ValueError ''Length mismatch'')"
proof -
  have c: "columns raw_table = raw_columns" by (simp add: raw_table_def)
  have h2: "\<not> df_empty raw_table"
    by (simp add: raw_table_def df_empty_def raw_columns_def)
  have h3: "set SELECT_COLS \<subseteq> set (map normalise_column (columns raw_table))"
    unfolding c normalise_raw_columns by (simp add: SELECT_COLS_def)
  have h4: "each_exactly_once raw_table"
    unfolding each_exactly_once_def c normalise_raw_columns by (simp add: SELECT_COLS_def)
  note t = normalizer_drops_incomplete_and_duplicate_rows [OF h2 h3]
  from t h4 obtain out where out: "fst (format_dataframe raw_table) = Inr out" by blast
  with t have "list_all required_present (data out)" "distinct (data out)" by blast+
  with h2 h3 h4 format_dataframe_raw_table out
  have first: "\<not> df_empty raw_table
   \<and> set SELECT_COLS \<subseteq> set (map normalise_column (columns raw_table))
   \<and> each_exactly_once raw_table
   \<and> fst (format_dataframe raw_table) = Inr \<lparr> columns = RENAMED_COLUMNS,
        data = [[Some ''a1'', Some ''2023-07'', Some ''Lancashire Constabulary'', Some ''-2.5'',
                 Some ''53.8'', None, Some ''Burglary'', Some ''On or near High Street'']] \<rparr>
   \<and> list_all required_present (data (projr (fst (format_dataframe raw_table))))
   \<and> distinct (data (projr (fst (format_dataframe raw_table))))"
    by simp
  have r: "map normalise_column (columns repeated_label_table) =
      [''crime_id'', ''crime_id'', ''month'', ''reported_by'', ''falls_within'', ''longitude'',
       ''latitude'', ''location'', ''lsoa_code'', ''lsoa_name'', ''crime_type'']"
    by (simp add: repeated_label_table_def raw_columns_def normalise_column_def lower_char_def)
  have g2: "\<not> df_empty repeated_label_table"
    by (simp add: repeated_label_table_def df_empty_def)
  have g3: "set SELECT_COLS \<subseteq> set (map normalise_column (columns repeated_label_table))"
    unfolding r by (simp add: SELECT_COLS_def)
  have g4: "\<not> each_exactly_once repeated_label_table"
    unfolding each_exactly_once_def r by (simp add: SELECT_COLS_def)
  from normalizer_drops_incomplete_and_duplicate_rows [OF g2 g3] g4
  have "fst (format_dataframe repeated_label_table) = Inl (ValueError ''Length mismatch'')"
    by blast
  with first g2 g3 g4 show ?thesis by blast
qed

text \<open>
  Claim C8 fails as stated. A non-empty table with the columns \<open>crime_id\<close> and
  \<open>Crime ID\<close> contains all required columns, but both labels normalise to \<open>crime_id\<close>:
  the selection has nine columns, and assigning the eight canonical labels raises
  \<open>ValueError\<close>. No table is returned.
\<close>

theorem normalizer_raises_on_a_repeated_label:
  "\<not> df_empty repeated_label_table
   \<and> set SELECT_COLS \<subseteq> set (map normalise_column (columns repeated_label_table))
   \<and> fst (format_dataframe repeated_label_table) = Inl (ValueError ''Length mismatch'')"
proof -
  have c: "map normalise_column (columns repeated_label_table) =
      [''crime_id'', ''crime_id'', ''month'', ''reported_by'', ''falls_within'', ''longitude'',
       ''latitude'', ''location'', ''lsoa_code'', ''lsoa_name'', ''crime_type'']"
    by (simp add: repeated_label_table_def raw_columns_def normalise_column_def lower_char_def)
  have h2: "\<not> df_empty repeated_label_table"
    by (simp add: repeated_label_table_def df_empty_def)
  have h3: "set SELECT_COLS \<subseteq> set (map normalise_column (columns repeated_label_table))"
    unfolding c by (simp add: SELECT_COLS_def)
  have "fst (format_dataframe repeated_label_table) = Inl (ValueError ''Length mismatch'')"
    unfolding format_dataframe_def
    using h2 by (simp add: c SELECT_COLS_def RENAMED_COLUMNS_def getitem_def positions_def Let_def)
  with h2 h3 show ?thesis by simp
qed

section \<open>Properties of the partition catalog\<close>

lemma digit_value_le: "is_digit c \<Longrightarrow> digit_value c \<le> 9"
  by (auto simp: is_digit_def digit_value_def)

lemma year_of_le: "year_of s = Some y \<Longrightarrow> y \<le> 9999"
proof (induction s rule: year_of.induct)
  case (1 a b c d)
  then show ?case
    using digit_value_le [of a] digit_value_le [of b] digit_value_le [of c] digit_value_le [of d]
    by (auto split: if_splits)
qed simp_all

lemma month_of_range: "month_of s = Some m \<Longrightarrow> 1 \<le> m \<and> m \<le> 12"
  by (induction s rule: month_of.induct) (auto simp: digit_value_def split: if_splits)

lemma strptime_Ym_valid: "strptime_Ym s = Inr d \<Longrightarrow> valid_dt d"
  by (auto simp: strptime_Ym_def valid_dt_def split: option.splits if_splits
      dest: year_of_le month_of_range)

lemma digit_char_not_hyphen: "n < 10 \<Longrightarrow> digit_char n \<noteq> CHR ''-''"
proof -
  assume "n < 10"
  then have "n \<in> {0, 1, 2, 3, 4, 5, 6, 7, 8, 9}" by auto
  then show ?thesis by (auto simp: digit_char_def)
qed

lemma hyphen_not_in_decimal: "CHR ''-'' \<notin> set (decimal n)"
proof (induction n rule: decimal.induct)
  case (1 n)
  show ?case
  proof (cases "n < 10")
    case True
    with digit_char_not_hyphen [of n] show ?thesis by (subst decimal.simps) auto
  next
    case False
    with 1 have "CHR ''-'' \<notin> set (decimal (n div 10))" by simp
    moreover have "digit_char (n mod 10) \<noteq> CHR ''-''" by (rule digit_char_not_hyphen) simp
    ultimately show ?thesis using False by (subst decimal.simps) auto
  qed
qed

lemma hyphen_not_in_strftime_m: "CHR ''-'' \<notin> set (strftime_m d)"
proof -
  have "digit_char (datetime.month d div 10 mod 10) \<noteq> CHR ''-''" by (rule digit_char_not_hyphen) simp
  moreover have "digit_char (datetime.month d mod 10) \<noteq> CHR ''-''" by (rule digit_char_not_hyphen) simp
  ultimately show ?thesis by (simp add: strftime_m_def)
qed

lemma append_sep_eq:
  assumes "c \<notin> set y" and "c \<notin> set m" and "a @ c # b = y @ c # m"
  shows "a = y \<and> b = m"
proof -
  from assms(3) obtain us where
    "(a = y @ us \<and> us @ c # b = c # m) \<or> (a @ us = y \<and> c # b = us @ c # m)"
    by (auto simp: append_eq_append_conv2)
  then show ?thesis
  proof
    assume h: "a = y @ us \<and> us @ c # b = c # m"
    show ?thesis
    proof (cases us)
      case Nil
      with h show ?thesis by simp
    next
      case (Cons u us')
      with h have "c \<in> set m" by auto
      with assms(2) show ?thesis by simp
    qed
  next
    assume h: "a @ us = y \<and> c # b = us @ c # m"
    show ?thesis
    proof (cases us)
      case Nil
      with h show ?thesis by simp
    next
      case (Cons u us')
      with h have "c \<in> set y" by auto
      with assms(1) show ?thesis by simp
    qed
  qed
qed

lemma last_two:
  assumes "2 \<le> length parts"
  shows "parts = take (length parts - 2) parts @ [parts ! (length parts - 2), parts ! (length parts - 1)]"
proof -
  from assms obtain ys b where p1: "parts = ys @ [b]" by (cases parts rule: rev_cases) auto
  with assms obtain zs a where p2: "ys = zs @ [a]" by (cases ys rule: rev_cases) auto
  show ?thesis unfolding p1 p2 by (simp add: nth_append)
qed

lemma path_month_year_iff:
  "path_month_year file_path = Inr (strftime_Ym d) \<longleftrightarrow>
     (\<exists>dirs file. split_sep CHR ''/'' file_path = dirs @ [strftime_Y d, file]
        \<and> replace_csv file = strftime_m d)"
proof
  assume h: "path_month_year file_path = Inr (strftime_Ym d)"
  define parts where "parts = split_sep CHR ''/'' file_path"
  from h have len: "2 \<le> length parts"
    and eq: "parts ! (length parts - 2) @ CHR ''-'' # replace_csv (parts ! (length parts - 1)) =
       strftime_Y d @ CHR ''-'' # strftime_m d"
    by (auto simp: path_month_year_def parts_def Let_def strftime_Ym_def split: if_splits)
  from append_sep_eq [OF _ hyphen_not_in_strftime_m eq] hyphen_not_in_decimal
  have "parts ! (length parts - 2) = strftime_Y d"
    and "replace_csv (parts ! (length parts - 1)) = strftime_m d"
    by (simp_all add: strftime_Y_def)
  with last_two [OF len] show "\<exists>dirs file. split_sep CHR ''/'' file_path = dirs @ [strftime_Y d, file]
        \<and> replace_csv file = strftime_m d"
    unfolding parts_def by metis
next
  assume "\<exists>dirs file. split_sep CHR ''/'' file_path = dirs @ [strftime_Y d, file]
        \<and> replace_csv file = strftime_m d"
  then show "path_month_year file_path = Inr (strftime_Ym d)"
    by (auto simp: path_month_year_def Let_def strftime_Ym_def nth_append)
qed

lemma collect_files_filter:
  "collect_files date_range root_dir files csv_files =
     csv_files @ filter (\<lambda>p. \<exists>my. path_month_year p = Inr my \<and> my \<in> set date_range)
       (map (path_join root_dir) (filter (\<lambda>file. endswith file ''.csv'') files))"
  by (induction files arbitrary: csv_files) (auto simp: Let_def split: sum.splits)

lemma collect_walk_filter:
  "collect_walk date_range walked csv_files =
     csv_files @ filter (\<lambda>p. \<exists>my. path_month_year p = Inr my \<and> my \<in> set date_range)
       (concat (map (\<lambda>(root_dir, dirs, files).
          map (path_join root_dir) (filter (\<lambda>file. endswith file ''.csv'') files)) walked))"
  by (induction date_range walked csv_files rule: collect_walk.induct)
    (simp_all add: collect_files_filter)

lemma replace_to_next:
  assumes "valid_dt current" and "\<not> (year current = 9999 \<and> datetime.month current = 12)"
  shows "replace_year_month current (year current + (datetime.month current + 1) div 13)
           (if (datetime.month current + 1) mod 12 = 0 then 12 else (datetime.month current + 1) mod 12)
         = Inr (next_dt current)"
proof (cases "datetime.month current = 12")
  case True
  with assms show ?thesis
    by (simp add: replace_year_month_def next_dt_def valid_dt_def)
next
  case False
  with assms have m: "datetime.month current + 1 \<le> 12" "1 \<le> datetime.month current"
    by (simp_all add: valid_dt_def)
  then have d: "(datetime.month current + 1) div 13 = 0" by simp
  have "(if (datetime.month current + 1) mod 12 = 0 then 12 else (datetime.month current + 1) mod 12)
      = datetime.month current + 1"
    using m by (cases "datetime.month current + 1 = 12") auto
  with False assms m d show ?thesis
    by (simp add: replace_year_month_def next_dt_def valid_dt_def)
qed

lemma window_step:
  assumes "valid_dt current" and "dt_le current end_dt"
  shows "{d. in_window current end_dt d} = insert current {d. in_window (next_dt current) end_dt d}"
proof -
  have "in_window current end_dt d \<longleftrightarrow> d = current \<or> in_window (next_dt current) end_dt d" for d
  proof (cases "d = current")
    case True
    with assms show ?thesis by (simp add: in_window_def valid_dt_def dt_le_def)
  next
    case False
    then have "year d \<noteq> year current \<or> datetime.month d \<noteq> datetime.month current"
      by (cases d, cases current) auto
    with assms show ?thesis
      by (auto simp: in_window_def valid_dt_def dt_le_def next_dt_def)
  qed
  then show ?thesis by auto
qed

lemma window_empty:
  assumes "\<not> dt_le current end_dt"
  shows "{d. in_window current end_dt d} = {}"
  using assms by (auto simp: in_window_def dt_le_def)

lemma date_range_loop_window:
  assumes "valid_dt end_dt" and "\<not> (year end_dt = 9999 \<and> datetime.month end_dt = 12)"
    and "valid_dt current"
  shows "\<exists>ds. date_range_loop current end_dt date_range = Inr (date_range @ map strftime_Ym ds)
           \<and> set ds = {d. in_window current end_dt d}"
  using assms
proof (induction current end_dt date_range rule: date_range_loop.induct)
  case (1 current end_dt date_range)
  show ?case
  proof (cases "dt_le current end_dt")
    case False
    then have "date_range_loop current end_dt date_range = Inr (date_range @ map strftime_Ym [])"
      by (subst date_range_loop.simps) simp
    with window_empty [OF False] show ?thesis by (intro exI [of _ "[]"]) simp
  next
    case True
    with 1(2,3,4) have notmax: "\<not> (year current = 9999 \<and> datetime.month current = 12)"
      by (auto simp: dt_le_def valid_dt_def)
    note step = replace_to_next [OF 1(4) notmax]
    have vn: "valid_dt (next_dt current)"
      using 1(4) notmax by (auto simp: valid_dt_def next_dt_def)
    from 1(1) [OF True refl refl step 1(2,3) vn]
    obtain ds where ds: "date_range_loop (next_dt current) end_dt (date_range @ [strftime_Ym current])
          = Inr ((date_range @ [strftime_Ym current]) @ map strftime_Ym ds)"
      and sds: "set ds = {d. in_window (next_dt current) end_dt d}" by blast
    have "date_range_loop current end_dt date_range =
        (case replace_year_month current (year current + (datetime.month current + 1) div 13)
           (if (datetime.month current + 1) mod 12 = 0 then 12
            else (datetime.month current + 1) mod 12) of
           Inl e \<Rightarrow> Inl e
         | Inr current1 \<Rightarrow> date_range_loop current1 end_dt (date_range @ [strftime_Ym current]))"
      by (subst date_range_loop.simps) (simp only: True if_True Let_def)
    also have "\<dots> = date_range_loop (next_dt current) end_dt (date_range @ [strftime_Ym current])"
      by (simp only: step sum.case)
    also have "\<dots> = Inr (date_range @ map strftime_Ym (current # ds))"
      by (simp add: ds)
    finally have "date_range_loop current end_dt date_range =
        Inr (date_range @ map strftime_Ym (current # ds))" .
    moreover have "set (current # ds) = {d. in_window current end_dt d}"
      by (simp add: sds window_step [OF 1(4) True])
    ultimately show ?thesis by blast
  qed
qed

text \<open>
  December 9999 is the one end of a window that \<open>date_range_loop\<close> cannot pass: whatever
  the start, the loop reaches 9999-12 and asks \<open>replace\<close> for the year 10000.
\<close>

lemma date_range_loop_december_9999:
  assumes "end_dt = \<lparr>year = 9999, month = 12\<rparr>" and "valid_dt current"
  shows "date_range_loop current end_dt date_range = Inl (ValueError ''year is out of range'')"
  using assms
proof (induction current end_dt date_range rule: date_range_loop.induct)
  case (1 current end_dt date_range)
  from 1(2,3) have le: "dt_le current end_dt" by (auto simp: dt_le_def valid_dt_def)
  have unfold: "date_range_loop current end_dt date_range =
        (case replace_year_month current (year current + (datetime.month current + 1) div 13)
           (if (datetime.month current + 1) mod 12 = 0 then 12
            else (datetime.month current + 1) mod 12) of
           Inl e \<Rightarrow> Inl e
         | Inr current1 \<Rightarrow> date_range_loop current1 end_dt (date_range @ [strftime_Ym current]))"
    by (subst date_range_loop.simps) (simp only: le if_True Let_def)
  show ?case
  proof (cases "year current = 9999 \<and> datetime.month current = 12")
    case True
    then show ?thesis unfolding unfold by (simp add: replace_year_month_def)
  next
    case False
    note step = replace_to_next [OF 1(3) False]
    have vn: "valid_dt (next_dt current)"
      using 1(3) False by (auto simp: valid_dt_def next_dt_def)
    from 1(1) [OF le refl refl step 1(2) vn] show ?thesis
      unfolding unfold by (simp only: step sum.case)
  qed
qed

lemma extract_relevant_csv_files_december_9999:
  assumes "path_exists os data_folder"
    and "strptime_Ym start_date = Inr start"
    and "strptime_Ym end_date = Inr \<lparr>year = 9999, month = 12\<rparr>"
  shows "extract_relevant_csv_files os data_folder start_date end_date =
           Inl (ValueError ''year is out of range'')"
  using assms date_range_loop_december_9999 [OF refl strptime_Ym_valid [OF assms(2)], of "[]"]
  by (simp add: extract_relevant_csv_files_def)

text \<open>
  Claim C6, amended. For every existing root directory and every parseable window whose
  end is not December 9999, the catalog returns exactly the \<open>.csv\<close> paths under the
  root, in walk order, that are selected for a month within \<open>[start_date, end_date]\<close>,
  both ends included: the paths whose last two components are the year directory of that
  month, named as \<open>strftime\<close> prints the year, and a file whose name is the month on two
  digits once \<open>.csv\<close> is removed. Every other path is skipped and nothing is raised;
  what lies between the root and the year directory is not looked at.
\<close>

theorem catalog_returns_the_paths_of_the_window:
  assumes "path_exists os data_folder"
    and "strptime_Ym start_date = Inr start" and "strptime_Ym end_date = Inr end_dt"
    and "\<not> (year end_dt = 9999 \<and> datetime.month end_dt = 12)"
  shows "extract_relevant_csv_files os data_folder start_date end_date =
           Inr (filter (selected start end_dt) (walked_csv_paths os data_folder))"
proof -
  from date_range_loop_window [OF strptime_Ym_valid [OF assms(3)] assms(4)
      strptime_Ym_valid [OF assms(2)], of "[]"]
  obtain ds where loop: "date_range_loop start end_dt [] = Inr (map strftime_Ym ds)"
    and ds: "set ds = {d. in_window start end_dt d}" by auto
  have "selected start end_dt p =
      (\<exists>d. in_window start end_dt d \<and> path_month_year p = Inr (strftime_Ym d))" for p
    unfolding selected_def path_month_year_iff by blast
  then have "(\<exists>my. path_month_year p = Inr my \<and> my \<in> set (map strftime_Ym ds)) = selected start end_dt p" for p
    by (auto simp: ds)
  then show ?thesis
    using assms(1,2,3) loop
    by (simp add: extract_relevant_csv_files_def collect_walk_filter walked_csv_paths_def)
qed

lemma example_extract:
  "extract_relevant_csv_files example_os ''data'' ''2023-07'' ''2023-09'' =
     Inr [''data/lancashire/2023/07.csv'', ''data/lancashire/2023/08.csv'',
          ''data/lancashire/2023/09.csv'']"
  by code_simp

lemma example_extract_year_999:
  "extract_relevant_csv_files early_os ''y'' ''0999-01'' ''0999-01'' = Inr [''y/r/999/01.csv'']"
  by code_simp

theorem catalog_returns_the_paths_of_the_window_witness:
  "path_exists example_os ''data''
   \<and> strptime_Ym ''2023-07'' = Inr \<lparr>year = 2023, month = 7\<rparr>
   \<and> strptime_Ym ''2023-09'' = Inr \<lparr>year = 2023, month = 9\<rparr>
   \<and> walked_csv_paths example_os ''data'' =
       [''data/stray.csv'', ''data/lancashire/2022/07.csv'', ''data/lancashire/2023/07.csv'',
        ''data/lancashire/2023/08.csv'', ''data/lancashire/2023/09.csv'',
        ''data/lancashire/2023/10.csv'']
   \<and> extract_relevant_csv_files example_os ''data'' ''2023-07'' ''2023-09'' =
       Inr [''data/lancashire/2023/07.csv'', ''data/lancashire/2023/08.csv'',
            ''data/lancashire/2023/09.csv'']
   \<and> filter (selected \<lparr>year = 2023, month = 7\<rparr> \<lparr>year = 2023, month = 9\<rparr>)
         (walked_csv_paths example_os ''data'') =
       [''data/lancashire/2023/07.csv'', ''data/lancashire/2023/08.csv'',
        ''data/lancashire/2023/09.csv'']
   \<and> path_exists early_os ''y''
   \<and> strptime_Ym ''0999-01'' = Inr \<lparr>year = 999, month = 1\<rparr>
   \<and> strftime_Ym \<lparr>year = 999, month = 1\<rparr> = ''999-01''
   \<and> walked_csv_paths early_os ''y'' = [''y/r/0999/01.csv'', ''y/r/999/01.csv'']
   \<and> extract_relevant_csv_files early_os ''y'' ''0999-01'' ''0999-01'' = Inr [''y/r/999/01.csv'']
   \<and> filter (selected \<lparr>year = 999, month = 1\<rparr> \<lparr>year = 999, month = 1\<rparr>)
         (walked_csv_paths early_os ''y'') = [''y/r/999/01.csv'']"
proof -
  have h1: "path_exists example_os ''data''" by (simp add: example_os_def)
  have h2: "strptime_Ym ''2023-07'' = Inr \<lparr>year = 2023, month = 7\<rparr>"
    by (simp add: strptime_Ym_def is_digit_def digit_value_def)
  have h3: "strptime_Ym ''2023-09'' = Inr \<lparr>year = 2023, month = 9\<rparr>"
    by (simp add: strptime_Ym_def is_digit_def digit_value_def)
  have h4: "\<not> (year \<lparr>year = 2023, month = 9\<rparr> = 9999 \<and> datetime.month \<lparr>year = 2023, month = 9\<rparr> = 12)"
    by simp
  have w: "walked_csv_paths example_os ''data'' =
       [''data/stray.csv'', ''data/lancashire/2022/07.csv'', ''data/lancashire/2023/07.csv'',
        ''data/lancashire/2023/08.csv'', ''data/lancashire/2023/09.csv'',
        ''data/lancashire/2023/10.csv'']"
    by (simp add: walked_csv_paths_def example_os_def path_join_def endswith_def)
  from catalog_returns_the_paths_of_the_window [OF h1 h2 h3 h4] example_extract
  have s: "filter (selected \<lparr>year = 2023, month = 7\<rparr> \<lparr>year = 2023, month = 9\<rparr>)
         (walked_csv_paths example_os ''data'') =
       [''data/lancashire/2023/07.csv'', ''data/lancashire/2023/08.csv'',
        ''data/lancashire/2023/09.csv'']"
    by simp
  have g1: "path_exists early_os ''y''" by (simp add: early_os_def)
  have g2: "strptime_Ym ''0999-01'' = Inr \<lparr>year = 999, month = 1\<rparr>"
    by (simp add: strptime_Ym_def is_digit_def digit_value_def)
  have g4: "\<not> (year \<lparr>year = 999, month = 1\<rparr> = 9999 \<and> datetime.month \<lparr>year = 999, month = 1\<rparr> = 12)"
    by simp
  have g5: "strftime_Ym \<lparr>year = 999, month = 1\<rparr> = ''999-01''" by code_simp
  have v: "walked_csv_paths early_os ''y'' = [''y/r/0999/01.csv'', ''y/r/999/01.csv'']"
    by (simp add: walked_csv_paths_def early_os_def path_join_def endswith_def)
  from catalog_returns_the_paths_of_the_window [OF g1 g2 g2 g4] example_extract_year_999
  have t: "filter (selected \<lparr>year = 999, month = 1\<rparr> \<lparr>year = 999, month = 1\<rparr>)
         (walked_csv_paths early_os ''y'') = [''y/r/999/01.csv'']"
    by simp
  from h1 h2 h3 w example_extract s g1 g2 g5 v example_extract_year_999 t
  show ?thesis by (simp only: simp_thms)
qed

text \<open>
  Claim C6 fails as stated. Paths that do not match the structure
  \<open>root/region/year/month.ext\<close> are not skipped when their last two components spell a
  month of the window: for the window 2023-07 to 2023-09 the catalog returns
  \<open>e/2023/08.csv\<close>, which has no region directory, \<open>e/r/2023/0.csv8.csv\<close>, whose file
  name is no month, and \<open>e/r/x/y/2023/07.csv\<close>, which lies two directories too deep,
  while \<open>e/r/2023/10.csv\<close>, which has the structure, is left out as a month outside the
  window. And a window that ends in December 9999 parses, but the function returns no
  paths for it: the loop asks \<open>replace\<close> for year 10000.
\<close>

theorem catalog_returns_paths_outside_the_structure:
  "path_exists misplaced_os ''e''
   \<and> extract_relevant_csv_files misplaced_os ''e'' ''2023-07'' ''2023-09'' =
       Inr [''e/2023/08.csv'', ''e/r/2023/0.csv8.csv'', ''e/r/x/y/2023/07.csv'']
   \<and> \<not> region_year_month ''e'' ''e/2023/08.csv''
   \<and> \<not> region_year_month ''e'' ''e/r/2023/0.csv8.csv''
   \<and> \<not> region_year_month ''e'' ''e/r/x/y/2023/07.csv''
   \<and> region_year_month ''e'' ''e/r/2023/10.csv''
   \<and> strptime_Ym ''9999-12'' = Inr \<lparr>year = 9999, month = 12\<rparr>
   \<and> extract_relevant_csv_files misplaced_os ''e'' ''9999-12'' ''9999-12'' =
       Inl (ValueError ''year is out of range'')"
proof -
  have h1: "path_exists misplaced_os ''e''" by (simp add: misplaced_os_def)
  have h2: "strptime_Ym ''9999-12'' = Inr \<lparr>year = 9999, month = 12\<rparr>"
    by (simp add: strptime_Ym_def is_digit_def digit_value_def)
  have h3: "extract_relevant_csv_files misplaced_os ''e'' ''2023-07'' ''2023-09'' =
       Inr [''e/2023/08.csv'', ''e/r/2023/0.csv8.csv'', ''e/r/x/y/2023/07.csv'']"
    by code_simp
  have h4: "\<not> region_year_month ''e'' ''e/2023/08.csv''" by code_simp
  have h5: "\<not> region_year_month ''e'' ''e/r/2023/0.csv8.csv''" by code_simp
  have h6: "\<not> region_year_month ''e'' ''e/r/x/y/2023/07.csv''" by code_simp
  have h7: "region_year_month ''e'' ''e/r/2023/10.csv''" by code_simp
  have "date_range_loop \<lparr>year = 9999, month = 12\<rparr> \<lparr>year = 9999, month = 12\<rparr> [] =
      Inl (ValueError ''year is out of range'')"
    by (subst date_range_loop.simps) (simp add: dt_le_def replace_year_month_def)
  with h1 h2 have h8: "extract_relevant_csv_files misplaced_os ''e'' ''9999-12'' ''9999-12'' =
       Inl (ValueError ''year is out of range'')"
    by (simp add: extract_relevant_csv_files_def)
  from h1 h2 h3 h4 h5 h6 h7 h8 show ?thesis by (simp only: simp_thms)
qed

end
